theory Spec2Isabelle
  imports Complex_Main
begin

section \<open>The sales dashboard: raw items and field extraction\<close>

text \<open>
  \<^verbatim>\<open>src/pages/sales_dashboard.py\<close> reads the items of one board, copies the display
  texts of the known columns into a dictionary per item, turns the list of dictionaries
  into a table, coerces the amount columns to numbers and filters the rows.

  An item of the board as the API returns it: its name and its list of column values.
  Of a column value the code reads the keys \<^verbatim>\<open>id\<close> and \<^verbatim>\<open>text\<close>; the text of
  a column without a value is JSON null, here \<open>None\<close>.
\<close>

record col_val =
  cv_id :: string
  cv_text :: "string option"

record item =
  item_name :: string
  column_values :: "col_val list"

text \<open>The dictionary \<^verbatim>\<open>record\<close> that \<^verbatim>\<open>process_sales_data\<close> builds for each item.\<close>

record sales_record =
  Item :: string
  Close_Date :: string
  Lead_Status :: string
  Amount_Paid_or_Contract_Value :: string
  Contract_Amount :: string
  Numbers3 :: string
  Assigned_Person :: string
  Client_Type :: string

text \<open>\<^verbatim>\<open>text if text else ""\<close>: null and the empty string both give the empty string.\<close>

definition text_or_empty :: "string option \<Rightarrow> string" where
  "text_or_empty text = (case text of None \<Rightarrow> [] | Some t \<Rightarrow> if t \<noteq> [] then t else [])"

text \<open>
  One round of the loop over \<^verbatim>\<open>item.get("column_values", [])\<close>: the
  \<^verbatim>\<open>if\<close>/\<^verbatim>\<open>elif\<close> chain on the column identifier, in the order of the source.
\<close>

definition assign_column :: "col_val \<Rightarrow> sales_record \<Rightarrow> sales_record" where
  "assign_column cv r =
     (let col_id = cv_id cv; text = cv_text cv in
      if col_id = ''color_mknxd1j2'' then r\<lparr>Lead_Status := text_or_empty text\<rparr>
      else if col_id = ''contract_amt'' then r\<lparr>Contract_Amount := text_or_empty text\<rparr>
      else if col_id = ''numbers3'' then r\<lparr>Numbers3 := text_or_empty text\<rparr>
      else if col_id = ''color_mkvewcwe'' then r\<lparr>Assigned_Person := text_or_empty text\<rparr>
      else if col_id = ''status_14__1'' then r\<lparr>Client_Type := text_or_empty text\<rparr>
      else if col_id = ''date_mktq7npm'' then r\<lparr>Close_Date := text_or_empty text\<rparr>
      else if col_id = ''formula_mktj2qh2'' then r\<lparr>Amount_Paid_or_Contract_Value := text_or_empty text\<rparr>
      else if col_id = ''formula_mktk2rgx'' then r\<lparr>Amount_Paid_or_Contract_Value := text_or_empty text\<rparr>
      else if col_id = ''formula_mktks5te'' then r\<lparr>Amount_Paid_or_Contract_Value := text_or_empty text\<rparr>
      else if col_id = ''formula_mktknqy9'' then r\<lparr>Amount_Paid_or_Contract_Value := text_or_empty text\<rparr>
      else if col_id = ''formula_mktkwnyh'' then r\<lparr>Amount_Paid_or_Contract_Value := text_or_empty text\<rparr>
      else if col_id = ''formula_mktq5ahq'' then r\<lparr>Amount_Paid_or_Contract_Value := text_or_empty text\<rparr>
      else if col_id = ''formula_mktt5nty'' then r\<lparr>Amount_Paid_or_Contract_Value := text_or_empty text\<rparr>
      else if col_id = ''formula_mkv0r139'' then r\<lparr>Amount_Paid_or_Contract_Value := text_or_empty text\<rparr>
      else r)"

definition new_record :: "item \<Rightarrow> sales_record" where
  "new_record it =
     \<lparr>Item = item_name it, Close_Date = [], Lead_Status = [],
      Amount_Paid_or_Contract_Value = [], Contract_Amount = [], Numbers3 = [],
      Assigned_Person = [], Client_Type = []\<rparr>"

text \<open>The whole loop over the column values of one item, from the first to the last.\<close>

definition extract_record :: "item \<Rightarrow> sales_record" where
  "extract_record it = fold assign_column (column_values it) (new_record it)"

text \<open>The eight formula columns that all feed the field "Amount Paid or Contract Value".\<close>

definition formula_columns :: "string list" where
  "formula_columns =
     [''formula_mktj2qh2'', ''formula_mktk2rgx'', ''formula_mktks5te'', ''formula_mktknqy9'',
      ''formula_mktkwnyh'', ''formula_mktq5ahq'', ''formula_mktt5nty'', ''formula_mkv0r139'']"

definition is_formula_column :: "col_val \<Rightarrow> bool" where
  "is_formula_column cv = (cv_id cv \<in> set formula_columns)"

section \<open>Library functions of pandas, as far as the dashboard uses them\<close>

text \<open>
  The functions of this section are not code of the repository: they stand for
  \<^verbatim>\<open>pd.to_numeric\<close>, \<^verbatim>\<open>Series.str.replace\<close>, \<^verbatim>\<open>Series.str.contains\<close>,
  \<^verbatim>\<open>pd.to_datetime\<close> and \<^verbatim>\<open>strftime\<close>, applied to one cell. A cell that is NaN
  or NaT is \<open>None\<close>. Numbers are exact reals, so the rounding of a 64-bit float is not
  part of the model; the code only compares amounts with zero and copies them.
\<close>

definition digit_val :: "char \<Rightarrow> nat option" where
  "digit_val c = (let k = (of_char c :: nat) in if 48 \<le> k \<and> k \<le> 57 then Some (k - 48) else None)"

text \<open>A non-empty run of ASCII digits read as a decimal numeral; anything else is \<open>None\<close>.\<close>

definition decimal :: "string \<Rightarrow> nat option" where
  "decimal s =
     (if s = [] then None
      else foldl (\<lambda>acc c. case acc of None \<Rightarrow> None
                          | Some a \<Rightarrow> (case digit_val c of None \<Rightarrow> None | Some d \<Rightarrow> Some (10 * a + d)))
             (Some 0) s)"

text \<open>
  \<^verbatim>\<open>pd.to_numeric(..., errors='coerce')\<close> on a text cell, for plain decimal
  numerals: an optional sign, digits, and at most one decimal point. The empty text and
  every text that is not such a numeral give NaN. (pandas also reads exponents,
  surrounding blanks and the words for infinity; the board's amount texts have none.)
\<close>

definition to_numeric :: "string \<Rightarrow> real option" where
  "to_numeric s =
     (let (neg, body) =
            (case s of [] \<Rightarrow> (False, [])
             | c # cs \<Rightarrow> if c = CHR ''-'' then (True, cs)
                         else if c = CHR ''+'' then (False, cs) else (False, s));
          int_part = takeWhile (\<lambda>c. c \<noteq> CHR ''.'') body;
          frac_part = drop 1 (dropWhile (\<lambda>c. c \<noteq> CHR ''.'') body)
      in case decimal (int_part @ frac_part) of
           None \<Rightarrow> None
         | Some m \<Rightarrow> Some ((if neg then - 1 else 1) * real m / 10 ^ length frac_part))"

text \<open>\<^verbatim>\<open>.str.replace(c, '')\<close> for a one-character pattern: every occurrence goes.\<close>

definition str_remove :: "char \<Rightarrow> string \<Rightarrow> string" where
  "str_remove c s = filter (\<lambda>x. x \<noteq> c) s"

text \<open>
  \<^verbatim>\<open>.str.contains(pat, na=False)\<close> for a pattern without regular-expression
  operators: \<open>pat\<close> occurs somewhere in the text.
\<close>

fun str_contains :: "string \<Rightarrow> string \<Rightarrow> bool" where
  "str_contains pat [] = (pat = [])"
| "str_contains pat (c # cs) = (take (length pat) (c # cs) = pat \<or> str_contains pat cs)"

record date =
  year :: nat
  month :: nat
  day :: nat

definition leap_year :: "nat \<Rightarrow> bool" where
  "leap_year y = ((y mod 4 = 0 \<and> y mod 100 \<noteq> 0) \<or> y mod 400 = 0)"

definition days_in_month :: "nat \<Rightarrow> nat \<Rightarrow> nat" where
  "days_in_month y m =
     (if m = 2 then (if leap_year y then 29 else 28)
      else if m = 4 \<or> m = 6 \<or> m = 9 \<or> m = 11 then 30 else 31)"

text \<open>
  \<^verbatim>\<open>pd.to_datetime(..., errors='coerce')\<close> on a text cell, for the format the
  board's date columns have, \<^verbatim>\<open>YYYY-MM-DD\<close>: a text of that shape that names a day of
  the calendar is that day, every other text (the empty one too) is NaT. Each cell is
  read on its own; the other formats pandas can guess, and the limits of its
  nanosecond timestamps, are not part of the model.
\<close>

definition to_datetime :: "string \<Rightarrow> date option" where
  "to_datetime s =
     (if length s = 10 \<and> s ! 4 = CHR ''-'' \<and> s ! 7 = CHR ''-'' then
        (case decimal (take 4 s) of None \<Rightarrow> None
         | Some y \<Rightarrow>
        (case decimal (take 2 (drop 5 s)) of None \<Rightarrow> None
         | Some m \<Rightarrow>
        (case decimal (drop 8 s) of None \<Rightarrow> None
         | Some d \<Rightarrow>
            if 1 \<le> y \<and> 1 \<le> m \<and> m \<le> 12 \<and> 1 \<le> d \<and> d \<le> days_in_month y m
            then Some \<lparr>year = y, month = m, day = d\<rparr> else None)))
      else None)"

definition month_names :: "string list" where
  "month_names =
     [''January'', ''February'', ''March'', ''April'', ''May'', ''June'',
      ''July'', ''August'', ''September'', ''October'', ''November'', ''December'']"

text \<open>\<^verbatim>\<open>%B\<close>: the full name of the month.\<close>

definition month_name :: "nat \<Rightarrow> string" where
  "month_name m = month_names ! (m - 1)"

text \<open>The decimal digits of a number, as \<^verbatim>\<open>%Y\<close> prints a year of four digits.\<close>

fun dec_str :: "nat \<Rightarrow> string" where
  "dec_str n =
     (if n < 10 then [''0123456789'' ! n]
      else dec_str (n div 10) @ [''0123456789'' ! (n mod 10)])"

text \<open>\<^verbatim>\<open>.dt.strftime('%B %Y')\<close> and \<^verbatim>\<open>.dt.strftime('%B')\<close>; NaT gives NaN.\<close>

definition strftime_B_Y :: "date option \<Rightarrow> string option" where
  "strftime_B_Y d = map_option (\<lambda>x. month_name (month x) @ '' '' @ dec_str (year x)) d"

definition strftime_B :: "date option \<Rightarrow> string option" where
  "strftime_B d = map_option (\<lambda>x. month_name (month x)) d"

text \<open>\<^verbatim>\<open>.fillna(v)\<close> on a numeric cell.\<close>

definition fillna :: "real \<Rightarrow> real option \<Rightarrow> real" where
  "fillna v x = (case x of None \<Rightarrow> v | Some a \<Rightarrow> a)"

text \<open>\<^verbatim>\<open>column >= 0\<close> on a numeric cell: a comparison with NaN is false.\<close>

definition ge_zero :: "real option \<Rightarrow> bool" where
  "ge_zero x = (case x of None \<Rightarrow> False | Some a \<Rightarrow> 0 \<le> a)"

section \<open>The sales dashboard: coercion, amount resolution and filters\<close>

text \<open>
  A row of the table \<^verbatim>\<open>df\<close> of \<^verbatim>\<open>process_sales_data\<close> after the amount columns
  have been coerced and the column "Total Value" has been added.
\<close>

record sales_row =
  df_Item :: string
  df_Close_Date :: string
  df_Lead_Status :: string
  df_Amount_Paid_or_Contract_Value :: "real option"
  df_Contract_Amount :: "real option"
  df_Numbers3 :: "real option"
  df_Assigned_Person :: string
  df_Client_Type :: string
  df_Total_Value :: "real option"

text \<open>
  The coercion of the column "Contract Amount":
  \<^verbatim>\<open>pd.to_numeric(col.str.replace('$', '').str.replace(',', ''), errors='coerce')\<close>.
  The two other amount columns go to \<^verbatim>\<open>pd.to_numeric\<close> as they are.
\<close>

definition coerce_contract_amount :: "string \<Rightarrow> real option" where
  "coerce_contract_amount text = to_numeric (str_remove (CHR '','') (str_remove (CHR ''$'') text))"

text \<open>
  \<^verbatim>\<open>df['Total Value'] = df['Contract Amount'].fillna(0)\<close>, then on the rows where
  that is zero, \<^verbatim>\<open>df['Total Value'] = df['Numbers3']\<close>.
\<close>

definition total_value :: "real option \<Rightarrow> real option \<Rightarrow> real option" where
  "total_value contract_amount numbers3 =
     (let tv = fillna 0 contract_amount in if tv = 0 then numbers3 else Some tv)"

definition to_row :: "sales_record \<Rightarrow> sales_row" where
  "to_row r =
     (let contract_amount = coerce_contract_amount (Contract_Amount r);
          numbers3 = to_numeric (Numbers3 r)
      in \<lparr>df_Item = Item r, df_Close_Date = Close_Date r, df_Lead_Status = Lead_Status r,
          df_Amount_Paid_or_Contract_Value = to_numeric (Amount_Paid_or_Contract_Value r),
          df_Contract_Amount = contract_amount, df_Numbers3 = numbers3,
          df_Assigned_Person = Assigned_Person r, df_Client_Type = Client_Type r,
          df_Total_Value = total_value contract_amount numbers3\<rparr>)"

definition closed_status_mask :: "sales_row \<Rightarrow> bool" where
  "closed_status_mask r = (df_Lead_Status r = ''Closed'')"

definition contract_amount_mask :: "sales_row \<Rightarrow> bool" where
  "contract_amount_mask r = ge_zero (df_Contract_Amount r)"

definition numbers3_mask :: "sales_row \<Rightarrow> bool" where
  "numbers3_mask r = ge_zero (df_Numbers3 r)"

definition both_null_mask :: "sales_row \<Rightarrow> bool" where
  "both_null_mask r = (df_Contract_Amount r = None \<and> df_Numbers3 r = None)"

text \<open>The amount part of \<^verbatim>\<open>final_mask\<close>, the three masks joined by "or".\<close>

definition amount_mask :: "sales_row \<Rightarrow> bool" where
  "amount_mask r = (contract_amount_mask r \<or> numbers3_mask r \<or> both_null_mask r)"

definition final_mask :: "sales_row \<Rightarrow> bool" where
  "final_mask r = (closed_status_mask r \<and> amount_mask r)"

definition year_2025_mask :: "sales_row \<Rightarrow> bool" where
  "year_2025_mask r = str_contains ''2025'' (df_Close_Date r)"

text \<open>
  A row of \<^verbatim>\<open>df_filtered\<close>: the row of \<^verbatim>\<open>df\<close>, its "Close Date" parsed, and the
  columns "Year", "Month" and "Month_Name" derived from the parsed date.
\<close>

record filtered_row =
  row :: sales_row
  Close_Date_parsed :: "date option"
  Year :: "nat option"
  Month :: "nat option"
  Month_Name :: "string option"

definition with_year_month :: "sales_row \<Rightarrow> filtered_row" where
  "with_year_month r =
     (let close_date = to_datetime (df_Close_Date r)
      in \<lparr>row = r, Close_Date_parsed = close_date, Year = map_option year close_date,
          Month = map_option month close_date, Month_Name = strftime_B close_date\<rparr>)"

text \<open>
  The argument of \<^verbatim>\<open>process_sales_data\<close>: \<open>None\<close> when the fetch gave nothing,
  otherwise the boards, each with the items of its \<^verbatim>\<open>items_page\<close> (no items when
  that key is missing). The result is the empty table, or the pair
  \<^verbatim>\<open>(df_filtered, df_2025)\<close>.
\<close>

type_synonym sales_data = "item list list"

datatype sales_frames = Empty_Frame | Frames "filtered_row list" "sales_row list"

definition sales_table :: "item list \<Rightarrow> sales_row list" where
  "sales_table items = map (\<lambda>it. to_row (extract_record it)) items"

definition process_sales_data :: "sales_data option \<Rightarrow> sales_frames" where
  "process_sales_data data =
     (case data of
        None \<Rightarrow> Empty_Frame
      | Some boards \<Rightarrow>
          if boards = [] then Empty_Frame
          else let all_items = concat boards in
            if all_items = [] then Empty_Frame
            else let df = sales_table all_items;
                     df_filtered = filter final_mask df;
                     df_2025 = filter year_2025_mask df_filtered
                 in Frames (map with_year_month df_filtered) df_2025)"




section \<open>The sales dashboard: the paginated fetch\<close>

text \<open>
  What one \<^verbatim>\<open>requests.post\<close> inside the \<^verbatim>\<open>try\<close> block can come to: one of the
  three exception handlers, or a decoded JSON body. Of the body the code reads the list
  \<^verbatim>\<open>errors\<close> (empty when the key is missing) and the list
  \<^verbatim>\<open>data.boards\<close> (empty when a key on the way is missing); of the first board it
  reads the \<^verbatim>\<open>items_page\<close> with its \<^verbatim>\<open>cursor\<close> and \<^verbatim>\<open>items\<close>.
  An HTTP error status is raised by \<^verbatim>\<open>raise_for_status\<close> as a
  \<^verbatim>\<open>RequestException\<close>.
\<close>

record items_page =
  cursor :: "string option"
  items :: "item list"

record payload =
  errors :: "string list"
  boards :: "items_page list"

datatype response =
    Timeout
  | RequestException string
  | OtherException string
  | Json payload

text \<open>The page limit of the query.\<close>

definition limit :: nat where
  "limit = 500"

text \<open>\<^verbatim>\<open>if cursor:\<close> on a cursor that may be null or the empty string.\<close>

definition truthy :: "string option \<Rightarrow> bool" where
  "truthy c = (case c of None \<Rightarrow> False | Some s \<Rightarrow> s \<noteq> [])"

text \<open>
  The cursor the query carries: the one of the last page when it is truthy, otherwise the
  query has no cursor argument.
\<close>

definition query_cursor :: "string option \<Rightarrow> string option" where
  "query_cursor c = (if truthy c then c else None)"

text \<open>
  The server, as the loop sees it: the answer to the \<open>n\<close>-th request, given the cursor
  that request carries. The loop \<^verbatim>\<open>while True\<close> has no bound of its own, so it is a
  partial function: \<open>None\<close> is a fetch that never returns. A fetch that returns gives
  the value handed to the caller (\<open>None\<close> for Python's \<^verbatim>\<open>None\<close>, otherwise the
  accumulated items) and the final \<^verbatim>\<open>page_count\<close>, the number of requests made.
\<close>

type_synonym server = "nat \<Rightarrow> string option \<Rightarrow> response"

partial_function (option) fetch_pages ::
  "server \<Rightarrow> string option \<Rightarrow> item list \<Rightarrow> nat \<Rightarrow> (item list option \<times> nat) option" where
  "fetch_pages srv cur all_items page_count =
     (let page_count = page_count + 1 in
      case srv page_count (query_cursor cur) of
        Timeout \<Rightarrow> Some (None, page_count)
      | RequestException e \<Rightarrow> Some (None, page_count)
      | OtherException e \<Rightarrow> Some (None, page_count)
      | Json data \<Rightarrow>
          if errors data \<noteq> [] then Some (Some all_items, page_count)
          else (case boards data of
                  [] \<Rightarrow> Some (Some all_items, page_count)
                | board_info # _ \<Rightarrow>
                    let items = items board_info;
                        cur = cursor board_info;
                        all_items = all_items @ items
                    in if \<not> truthy cur \<or> length items < limit
                       then Some (Some all_items, page_count)
                       else fetch_pages srv cur all_items page_count))"

text \<open>
  \<^verbatim>\<open>get_sales_data\<close>: the loop from no cursor, no items and no pages; what comes
  back is wrapped as one board.
\<close>

definition get_sales_data :: "server \<Rightarrow> sales_data option option" where
  "get_sales_data srv =
     map_option (\<lambda>(result, page_count). map_option (\<lambda>all_items. [all_items]) result)
       (fetch_pages srv None [] 0)"

text \<open>
  A description of a server, used to state what the loop does with it: from request
  \<open>n + 1\<close> on, and starting with the cursor \<open>cur\<close>, it answers with the pages
  \<open>pgs\<close> in turn, each without errors, when the loop sends back the cursor of the page
  before.
\<close>

fun serves :: "server \<Rightarrow> nat \<Rightarrow> string option \<Rightarrow> items_page list \<Rightarrow> bool" where
  "serves srv n cur [] = True"
| "serves srv n cur (pg # pgs) =
     ((case srv (Suc n) (query_cursor cur) of
         Json data \<Rightarrow> errors data = [] \<and> (case boards data of [] \<Rightarrow> False | b # _ \<Rightarrow> b = pg)
       | _ \<Rightarrow> False)
      \<and> serves srv (Suc n) (cursor pg) pgs)"

section \<open>The ad-spend viewer: formatting and export\<close>

text \<open>
  \<^verbatim>\<open>src/app.py\<close> shows the board of advertising spend. The dictionary
  \<^verbatim>\<open>record\<close> of \<^verbatim>\<open>format_data\<close> and one round of its loop over the column
  values of an item:
\<close>

record ad_record =
  ad_Item :: string
  Attribution_Date :: string
  Google_Adspend :: string

definition assign_ad_column :: "item \<Rightarrow> col_val \<Rightarrow> ad_record \<Rightarrow> ad_record" where
  "assign_ad_column it cv r =
     (let col_id = cv_id cv; text = cv_text cv in
      if col_id = ''name'' then r\<lparr>ad_Item := item_name it\<rparr>
      else if col_id = ''date_mkv81p3z'' then r\<lparr>Attribution_Date := text_or_empty text\<rparr>
      else if col_id = ''numeric_mkv863mb'' then r\<lparr>Google_Adspend := text_or_empty text\<rparr>
      else r)"

definition extract_ad_record :: "item \<Rightarrow> ad_record" where
  "extract_ad_record it =
     fold (assign_ad_column it) (column_values it)
       \<lparr>ad_Item = item_name it, Attribution_Date = [], Google_Adspend = []\<rparr>"

text \<open>
  A row of the table of \<^verbatim>\<open>format_data\<close>. The column "Year" is added later, by
  \<^verbatim>\<open>main\<close>; a table carries the list of its column names, so a row of a table
  without that column has nothing to show in \<open>row_Year\<close>.
\<close>

record ad_row =
  row_Item :: string
  row_Attribution_Date :: "date option"
  row_Google_Adspend :: "real option"
  row_Month_Year :: "string option"
  row_Year :: "nat option"

record ad_frame =
  columns :: "string list"
  rows :: "ad_row list"

text \<open>
  The date column is coerced as a whole, by
  \<^verbatim>\<open>pd.to_datetime(df['Attribution Date'], errors='coerce')\<close>. pandas takes the
  first text of the column that is not empty (nor one of its words for a missing value),
  guesses a format from that one text, and reads every text of the column in that
  format; a text that does not fit is NaT. When no format can be guessed, every text is
  read on its own. How pandas guesses a format and reads a text in a format is library
  code, of which the dashboard fixes nothing: the three functions are arguments of the
  model.
\<close>

record pandas =
  guess_datetime_format :: "string \<Rightarrow> string option"
  strptime :: "string \<Rightarrow> string \<Rightarrow> date option"
  parse_datetime_string :: "string \<Rightarrow> date option"

definition nat_strings :: "string list" where
  "nat_strings = [''NaT'', ''nat'', ''NAT'', ''nan'', ''NaN'', ''NAN'']"

definition null_text :: "string \<Rightarrow> bool" where
  "null_text t = (t = [] \<or> t \<in> set nat_strings)"

definition first_non_null :: "string list \<Rightarrow> string option" where
  "first_non_null texts =
     (case filter (\<lambda>t. \<not> (null_text t \<or> t = ''now'' \<or> t = ''today'')) texts of
        [] \<Rightarrow> None
      | t # _ \<Rightarrow> Some t)"

text \<open>The format of the column: the one guessed from its first text, if any.\<close>

definition column_format :: "pandas \<Rightarrow> string list \<Rightarrow> string option" where
  "column_format lib texts =
     (case first_non_null texts of None \<Rightarrow> None | Some t \<Rightarrow> guess_datetime_format lib t)"

text \<open>One text of the column, read in the format of the column.\<close>

definition read_cell :: "pandas \<Rightarrow> string option \<Rightarrow> string \<Rightarrow> date option" where
  "read_cell lib fmt t =
     (if null_text t then None
      else case fmt of Some f \<Rightarrow> strptime lib f t | None \<Rightarrow> parse_datetime_string lib t)"

definition to_datetime_column :: "pandas \<Rightarrow> string list \<Rightarrow> date option list" where
  "to_datetime_column lib texts = map (read_cell lib (column_format lib texts)) texts"

text \<open>
  \<^verbatim>\<open>.dt.strftime('%B %Y')\<close> on the column raises when one of its dates has a year
  that Python's own \<^verbatim>\<open>datetime\<close> does not have, below 1 or above 9999; then
  \<^verbatim>\<open>format_data\<close> returns nothing at all.
\<close>

datatype error = Strftime_Out_Of_Range

definition strftime_raises :: "date option \<Rightarrow> bool" where
  "strftime_raises d = (case d of None \<Rightarrow> False | Some x \<Rightarrow> year x < 1 \<or> 9999 < year x)"

text \<open>
  The row of one record, once the format of the column is known: the date, the label
  "Month Year" of the date, the spend by \<^verbatim>\<open>pd.to_numeric\<close>.
\<close>

definition format_record :: "pandas \<Rightarrow> string option \<Rightarrow> ad_record \<Rightarrow> ad_row" where
  "format_record lib fmt r =
     (let attribution_date = read_cell lib fmt (Attribution_Date r)
      in \<lparr>row_Item = ad_Item r, row_Attribution_Date = attribution_date,
          row_Google_Adspend = to_numeric (Google_Adspend r),
          row_Month_Year = strftime_B_Y attribution_date, row_Year = None\<rparr>)"

text \<open>
  \<^verbatim>\<open>df.sort_values('Attribution Date')\<close>: ascending by date, the rows without a
  date last. (The model keeps rows of the same date in their order; pandas does not
  promise that.)
\<close>

definition date_key :: "date \<Rightarrow> nat" where
  "date_key d = year d * 10000 + month d * 100 + day d"

definition sort_values_date :: "ad_row list \<Rightarrow> ad_row list" where
  "sort_values_date rs =
     sort_key (\<lambda>r. case row_Attribution_Date r of None \<Rightarrow> 0 | Some d \<Rightarrow> date_key d)
       (filter (\<lambda>r. row_Attribution_Date r \<noteq> None) rs)
     @ filter (\<lambda>r. row_Attribution_Date r = None) rs"

definition empty_frame :: ad_frame where
  "empty_frame = \<lparr>columns = [], rows = []\<rparr>"

text \<open>
  \<^verbatim>\<open>format_data\<close>: the argument is \<open>None\<close> when the fetch gave nothing, otherwise
  the boards with the items of their \<^verbatim>\<open>items_page\<close>; only the first board is read.
  The result is the table, or the exception of \<^verbatim>\<open>strftime\<close>.
\<close>

definition format_data :: "pandas \<Rightarrow> sales_data option \<Rightarrow> error + ad_frame" where
  "format_data lib data =
     (case data of
        None \<Rightarrow> Inr empty_frame
      | Some [] \<Rightarrow> Inr empty_frame
      | Some (its # _) \<Rightarrow>
          if its = [] then Inr empty_frame
          else let records = map extract_ad_record its;
                   texts = map Attribution_Date records;
                   attribution_dates = to_datetime_column lib texts
               in if list_ex strftime_raises attribution_dates then Inl Strftime_Out_Of_Range
                  else Inr \<lparr>columns = [''Item'', ''Attribution Date'', ''Google Adspend'', ''Month Year''],
                            rows = sort_values_date
                              (map (format_record lib (column_format lib texts)) records)\<rparr>)"

text \<open>A cell of a table as it is shown or written: a value of the column's type, or nothing.\<close>

datatype cell = Text string | Number real | Timestamp date | Integer nat | Missing

definition cell_of :: "string \<Rightarrow> ad_row \<Rightarrow> cell" where
  "cell_of c r =
     (if c = ''Item'' then Text (row_Item r)
      else if c = ''Attribution Date'' then
        (case row_Attribution_Date r of None \<Rightarrow> Missing | Some d \<Rightarrow> Timestamp d)
      else if c = ''Google Adspend'' then
        (case row_Google_Adspend r of None \<Rightarrow> Missing | Some v \<Rightarrow> Number v)
      else if c = ''Month Year'' then
        (case row_Month_Year r of None \<Rightarrow> Missing | Some l \<Rightarrow> Text l)
      else if c = ''Year'' then
        (case row_Year r of None \<Rightarrow> Missing | Some y \<Rightarrow> Integer y)
      else Missing)"

text \<open>
  What a table shows: its column names and, for every row, the cells of those columns in
  that order. \<^verbatim>\<open>df[cols]\<close> keeps the rows and takes the columns \<open>cols\<close>;
  \<^verbatim>\<open>df.to_csv(index=False)\<close> writes the header line and the rows of all columns of
  \<open>df\<close>.
\<close>

definition cells :: "ad_frame \<Rightarrow> cell list list" where
  "cells df = map (\<lambda>r. map (\<lambda>c. cell_of c r) (columns df)) (rows df)"

definition select_columns :: "string list \<Rightarrow> ad_frame \<Rightarrow> ad_frame" where
  "select_columns cols df = df\<lparr>columns := cols\<rparr>"

record csv_file =
  csv_header :: "string list"
  csv_rows :: "cell list list"

definition to_csv :: "ad_frame \<Rightarrow> csv_file" where
  "to_csv df = \<lparr>csv_header = columns df, csv_rows = cells df\<rparr>"

text \<open>\<^verbatim>\<open>df.empty\<close>: no rows or no columns.\<close>

definition frame_empty :: "ad_frame \<Rightarrow> bool" where
  "frame_empty df = (rows df = [] \<or> columns df = [])"

text \<open>\<^verbatim>\<open>df.dropna(subset=['Attribution Date'])\<close> and the same with both columns.\<close>

definition dropna_date :: "ad_frame \<Rightarrow> ad_frame" where
  "dropna_date df = df\<lparr>rows := filter (\<lambda>r. row_Attribution_Date r \<noteq> None) (rows df)\<rparr>"

definition dropna_date_adspend :: "ad_frame \<Rightarrow> ad_frame" where
  "dropna_date_adspend df =
     df\<lparr>rows := filter (\<lambda>r. row_Attribution_Date r \<noteq> None \<and> row_Google_Adspend r \<noteq> None) (rows df)\<rparr>"

text \<open>\<^verbatim>\<open>df_with_dates['Year'] = df_with_dates['Attribution Date'].dt.year\<close>.\<close>

definition add_year :: "ad_frame \<Rightarrow> ad_frame" where
  "add_year df =
     \<lparr>columns = (if ''Year'' \<in> set (columns df) then columns df else columns df @ [''Year'']),
      rows = map (\<lambda>r. r\<lparr>row_Year := map_option year (row_Attribution_Date r)\<rparr>) (rows df)\<rparr>"

text \<open>
  The part of \<^verbatim>\<open>main\<close> from the table \<open>df\<close> of \<^verbatim>\<open>format_data\<close> to the data
  table and the download. \<open>selected_year\<close> is the choice in the year box, \<open>None\<close>
  for "All Years". The result is \<open>None\<close> where \<^verbatim>\<open>main\<close> shows a warning in place
  of the table; otherwise it is the table on the screen,
  \<^verbatim>\<open>df_chart[display_columns]\<close>, and the file behind the download button,
  \<^verbatim>\<open>df_chart.to_csv(index=False)\<close>.
\<close>

record export =
  displayed :: ad_frame
  csv :: csv_file

definition main_export :: "ad_frame \<Rightarrow> nat option \<Rightarrow> export option" where
  "main_export df selected_year =
     (if frame_empty df then None
      else let df_with_dates = dropna_date df;
               df_filtered =
                 (if \<not> frame_empty df_with_dates then
                    let df_with_dates = add_year df_with_dates in
                    (case selected_year of
                       None \<Rightarrow> df_with_dates
                     | Some y \<Rightarrow> df_with_dates\<lparr>rows := filter (\<lambda>r. row_Year r = Some y) (rows df_with_dates)\<rparr>)
                  else df_with_dates);
               df_chart = dropna_date_adspend df_filtered
           in if \<not> frame_empty df_chart then
                let display_columns =
                      (if ''Year'' \<in> set (columns df_chart)
                       then [''Item'', ''Attribution Date'', ''Year'', ''Google Adspend'']
                       else [''Item'', ''Attribution Date'', ''Google Adspend''])
                in Some \<lparr>displayed = select_columns display_columns df_chart, csv = to_csv df_chart\<rparr>
              else None)"

text \<open>
  \<^verbatim>\<open>main\<close> from the fetched data on: \<^verbatim>\<open>df = format_data(data)\<close>, whose
  exception ends \<^verbatim>\<open>main\<close>, then the table and the download.
\<close>

definition main :: "pandas \<Rightarrow> sales_data option \<Rightarrow> nat option \<Rightarrow> error + export option" where
  "main lib data selected_year =
     (case format_data lib data of
        Inl e \<Rightarrow> Inl e
      | Inr df \<Rightarrow> Inr (main_export df selected_year))"

section \<open>Example servers\<close>

text \<open>
  A server that follows a script: the \<open>n\<close>-th entry holds the cursor the \<open>n\<close>-th
  request must carry and the answer to it. Any other request fails.
\<close>

definition scripted :: "(string option \<times> response) list \<Rightarrow> server" where
  "scripted script n c =
     (if 0 < n \<and> n \<le> length script \<and> fst (script ! (n - 1)) = c then snd (script ! (n - 1))
      else RequestException ''unexpected request'')"

text \<open>A successful answer with one board and no errors.\<close>

definition page :: "items_page \<Rightarrow> response" where
  "page pg = Json \<lparr>errors = [], boards = [pg]\<rparr>"

definition lead :: item where
  "lead = \<lparr>item_name = ''lead'', column_values = []\<rparr>"

section \<open>Example date formats\<close>

text \<open>
  Two of the formats pandas knows, to run the model on texts: year, month and day with
  dashes, and month, day and year with slashes. A text in one of them is read as pandas
  reads it; pandas knows more formats than these two.
\<close>

definition calendar_date :: "nat \<Rightarrow> nat \<Rightarrow> nat \<Rightarrow> date option" where
  "calendar_date y m d =
     (if 1 \<le> m \<and> m \<le> 12 \<and> 1 \<le> d \<and> d \<le> days_in_month y m
      then Some \<lparr>year = y, month = m, day = d\<rparr> else None)"

definition iso_date :: "string \<Rightarrow> date option" where
  "iso_date s =
     (if length s = 10 \<and> s ! 4 = CHR ''-'' \<and> s ! 7 = CHR ''-'' then
        (case decimal (take 4 s) of None \<Rightarrow> None
         | Some y \<Rightarrow>
        (case decimal (take 2 (drop 5 s)) of None \<Rightarrow> None
         | Some m \<Rightarrow>
        (case decimal (drop 8 s) of None \<Rightarrow> None
         | Some d \<Rightarrow> calendar_date y m d)))
      else None)"

definition us_date :: "string \<Rightarrow> date option" where
  "us_date s =
     (if length s = 10 \<and> s ! 2 = CHR ''/'' \<and> s ! 5 = CHR ''/'' then
        (case decimal (take 2 s) of None \<Rightarrow> None
         | Some m \<Rightarrow>
        (case decimal (take 2 (drop 3 s)) of None \<Rightarrow> None
         | Some d \<Rightarrow>
        (case decimal (drop 6 s) of None \<Rightarrow> None
         | Some y \<Rightarrow> calendar_date y m d)))
      else None)"

definition two_formats :: pandas where
  "two_formats =
     \<lparr>guess_datetime_format =
        (\<lambda>t. if iso_date t \<noteq> None then Some ''%Y-%m-%d''
             else if us_date t \<noteq> None then Some ''%m/%d/%Y'' else None),
      strptime =
        (\<lambda>f t. if f = ''%Y-%m-%d'' then iso_date t
               else if f = ''%m/%d/%Y'' then us_date t else None),
      parse_datetime_string =
        (\<lambda>t. case iso_date t of Some d \<Rightarrow> Some d | None \<Rightarrow> us_date t)\<rparr>"

section \<open>Field extraction: the last formula column wins\<close>

lemma assign_formula_column:
  "is_formula_column cv \<Longrightarrow>
   Amount_Paid_or_Contract_Value (assign_column cv r) = text_or_empty (cv_text cv)"
  unfolding is_formula_column_def formula_columns_def assign_column_def Let_def
  by (elim disjE rev_mp [of "cv_id cv \<in> _"]) auto

lemma assign_other_column:
  "\<not> is_formula_column cv \<Longrightarrow>
   Amount_Paid_or_Contract_Value (assign_column cv r) = Amount_Paid_or_Contract_Value r"
  unfolding is_formula_column_def formula_columns_def assign_column_def Let_def
  by simp

text \<open>
  The loop runs from the first column value to the last, so the field is looked at from
  the end of the list: induction on the list with the last element split off.
\<close>

lemma fold_assign_formula:
  "Amount_Paid_or_Contract_Value (fold assign_column cvs r) =
     (if filter is_formula_column cvs = [] then Amount_Paid_or_Contract_Value r
      else text_or_empty (cv_text (last (filter is_formula_column cvs))))"
proof (induction cvs rule: rev_induct)
  case Nil
  show ?case by simp
next
  case (snoc cv cvs)
  show ?case
  proof (cases "is_formula_column cv")
    case True
    then show ?thesis
      by (simp add: assign_formula_column)
  next
    case False
    then show ?thesis
      using snoc.IH by (simp add: assign_other_column)
  qed
qed

text \<open>
  C10. When the column values of an item hold one or more of the eight formula
  columns, the field "Amount Paid or Contract Value" of the record is the text of the
  last of them in list order, with null or empty text read as the empty string: a later
  formula column overwrites an earlier one whatever the two texts are.
\<close>

theorem last_formula_column_wins:
  assumes "filter is_formula_column (column_values it) \<noteq> []"
  shows "Amount_Paid_or_Contract_Value (extract_record it) =
           text_or_empty (cv_text (last (filter is_formula_column (column_values it))))"
  using assms by (simp add: extract_record_def fold_assign_formula)

text \<open>
  An item whose first formula column reads "100" and whose last one is empty ends with
  the empty string; with the first column alone it ends with "100".
\<close>

theorem last_formula_column_wins_witness:
  "filter is_formula_column
     [\<lparr>cv_id = ''formula_mktj2qh2'', cv_text = Some ''100''\<rparr>,
      \<lparr>cv_id = ''contract_amt'', cv_text = Some ''$5''\<rparr>,
      \<lparr>cv_id = ''formula_mkv0r139'', cv_text = Some []\<rparr>] \<noteq> []
   \<and> Amount_Paid_or_Contract_Value
       (extract_record \<lparr>item_name = ''deal'', column_values =
          [\<lparr>cv_id = ''formula_mktj2qh2'', cv_text = Some ''100''\<rparr>,
           \<lparr>cv_id = ''contract_amt'', cv_text = Some ''$5''\<rparr>,
           \<lparr>cv_id = ''formula_mkv0r139'', cv_text = Some []\<rparr>]\<rparr>) = []
   \<and> Amount_Paid_or_Contract_Value
       (extract_record \<lparr>item_name = ''deal'', column_values =
          [\<lparr>cv_id = ''formula_mktj2qh2'', cv_text = Some ''100''\<rparr>]\<rparr>) = ''100''"
  using last_formula_column_wins [of "\<lparr>item_name = ''deal'', column_values =
          [\<lparr>cv_id = ''formula_mktj2qh2'', cv_text = Some ''100''\<rparr>,
           \<lparr>cv_id = ''contract_amt'', cv_text = Some ''$5''\<rparr>,
           \<lparr>cv_id = ''formula_mkv0r139'', cv_text = Some []\<rparr>]\<rparr>"]
    last_formula_column_wins [of "\<lparr>item_name = ''deal'', column_values =
          [\<lparr>cv_id = ''formula_mktj2qh2'', cv_text = Some ''100''\<rparr>]\<rparr>"]
  by (simp add: is_formula_column_def formula_columns_def text_or_empty_def)

section \<open>Coercion of amounts and the resolved Total Value\<close>

lemmas parse_defs = to_numeric_def decimal_def digit_val_def str_remove_def

lemma to_row_fields:
  "df_Item (to_row r) = Item r"
  "df_Close_Date (to_row r) = Close_Date r"
  "df_Lead_Status (to_row r) = Lead_Status r"
  "df_Contract_Amount (to_row r) = coerce_contract_amount (Contract_Amount r)"
  "df_Numbers3 (to_row r) = to_numeric (Numbers3 r)"
  "df_Total_Value (to_row r) =
     total_value (coerce_contract_amount (Contract_Amount r)) (to_numeric (Numbers3 r))"
  by (simp_all add: to_row_def Let_def)

lemma to_numeric_examples:
  "to_numeric [] = None"
  "to_numeric ''0'' = Some 0"
  "to_numeric ''120'' = Some 120"
  "to_numeric ''500'' = Some 500"
  "to_numeric ''40'' = Some 40"
  "to_numeric ''12.5'' = Some 12.5"
  "to_numeric ''2013315.00'' = Some 2013315"
  "to_numeric ''$2,013,315.00'' = None"
  by (simp_all add: parse_defs)

lemma coerce_contract_amount_examples:
  "coerce_contract_amount [] = None"
  "coerce_contract_amount ''0'' = Some 0"
  "coerce_contract_amount ''120'' = Some 120"
  "coerce_contract_amount ''$2,013,315.00'' = Some 2013315"
  by (simp_all add: coerce_contract_amount_def str_remove_def to_numeric_examples)

text \<open>
  C8. On every row, the coercion of the column "Contract Amount" turns the text
  "$2,013,315.00" into the number 2013315.00, the dollar sign and the commas taken out,
  and the empty text into a null.
\<close>

theorem currency_coercion:
  "df_Contract_Amount (to_row (r\<lparr>Contract_Amount := ''$2,013,315.00''\<rparr>)) = Some 2013315.00
   \<and> df_Contract_Amount (to_row (r\<lparr>Contract_Amount := []\<rparr>)) = None"
  by (simp add: to_row_fields coerce_contract_amount_examples)

text \<open>
  The column "Numbers3" goes to the numeric conversion with its signs and commas, so
  the same text is a null there.
\<close>

lemma numbers3_not_stripped:
  "df_Numbers3 (to_row (r\<lparr>Numbers3 := ''$2,013,315.00''\<rparr>)) = None"
  by (simp add: to_row_fields to_numeric_examples)

text \<open>
  C1. On every row of the table, "Total Value" is the "Contract Amount" when that is
  a number other than zero, and is "Numbers3" when the "Contract Amount" is null or zero.
\<close>

theorem total_value_fallback:
  "(df_Contract_Amount (to_row r) \<noteq> None \<and> df_Contract_Amount (to_row r) \<noteq> Some 0
      \<longrightarrow> df_Total_Value (to_row r) = df_Contract_Amount (to_row r))
   \<and> (df_Contract_Amount (to_row r) = None \<or> df_Contract_Amount (to_row r) = Some 0
      \<longrightarrow> df_Total_Value (to_row r) = df_Numbers3 (to_row r))"
  by (auto simp: to_row_fields total_value_def fillna_def)

text \<open>
  The two rows of the specification: amounts 0 and 500 resolve to 500, amounts 120 and
  500 resolve to 120.
\<close>

theorem total_value_fallback_witness:
  "df_Contract_Amount (to_row \<lparr>Item = ''a'', Close_Date = [], Lead_Status = ''Closed'',
       Amount_Paid_or_Contract_Value = [], Contract_Amount = ''0'', Numbers3 = ''500'',
       Assigned_Person = [], Client_Type = []\<rparr>) = Some 0
   \<and> df_Total_Value (to_row \<lparr>Item = ''a'', Close_Date = [], Lead_Status = ''Closed'',
       Amount_Paid_or_Contract_Value = [], Contract_Amount = ''0'', Numbers3 = ''500'',
       Assigned_Person = [], Client_Type = []\<rparr>) = Some 500
   \<and> df_Contract_Amount (to_row \<lparr>Item = ''b'', Close_Date = [], Lead_Status = ''Closed'',
       Amount_Paid_or_Contract_Value = [], Contract_Amount = ''120'', Numbers3 = ''500'',
       Assigned_Person = [], Client_Type = []\<rparr>) = Some 120
   \<and> df_Total_Value (to_row \<lparr>Item = ''b'', Close_Date = [], Lead_Status = ''Closed'',
       Amount_Paid_or_Contract_Value = [], Contract_Amount = ''120'', Numbers3 = ''500'',
       Assigned_Person = [], Client_Type = []\<rparr>) = Some 120"
  using total_value_fallback [of "\<lparr>Item = ''a'', Close_Date = [], Lead_Status = ''Closed'',
       Amount_Paid_or_Contract_Value = [], Contract_Amount = ''0'', Numbers3 = ''500'',
       Assigned_Person = [], Client_Type = []\<rparr>"]
    total_value_fallback [of "\<lparr>Item = ''b'', Close_Date = [], Lead_Status = ''Closed'',
       Amount_Paid_or_Contract_Value = [], Contract_Amount = ''120'', Numbers3 = ''500'',
       Assigned_Person = [], Client_Type = []\<rparr>"]
  by (simp add: to_row_fields coerce_contract_amount_examples to_numeric_examples)

section \<open>The status filter and the amount filter\<close>

lemmas mask_defs =
  final_mask_def closed_status_mask_def amount_mask_def contract_amount_mask_def
  numbers3_mask_def both_null_mask_def ge_zero_def

text \<open>What the two tables are when \<^verbatim>\<open>process_sales_data\<close> returns tables at all.\<close>

lemma process_sales_data_Frames:
  assumes "process_sales_data data = Frames df_filtered df_2025"
  obtains its where
    "df_filtered = map with_year_month (filter final_mask (sales_table its))"
    "df_2025 = filter year_2025_mask (filter final_mask (sales_table its))"
  using assms
  by (auto simp: process_sales_data_def Let_def split: option.splits if_splits)

lemma with_year_month_fields:
  "row (with_year_month r) = r"
  "Year (with_year_month r) = map_option year (to_datetime (df_Close_Date r))"
  by (simp_all add: with_year_month_def Let_def)

text \<open>The rows of the table for three items that differ in their status only.\<close>

lemma extract_record_status:
  "extract_record \<lparr>item_name = n, column_values =
       [\<lparr>cv_id = ''color_mknxd1j2'', cv_text = Some s\<rparr>,
        \<lparr>cv_id = ''date_mktq7npm'', cv_text = Some d\<rparr>]\<rparr> =
     \<lparr>Item = n, Close_Date = d, Lead_Status = s,
      Amount_Paid_or_Contract_Value = [], Contract_Amount = [], Numbers3 = [],
      Assigned_Person = [], Client_Type = []\<rparr>"
  by (simp add: extract_record_def new_record_def assign_column_def text_or_empty_def)

lemma to_row_no_amounts:
  "to_row \<lparr>Item = n, Close_Date = d, Lead_Status = s,
      Amount_Paid_or_Contract_Value = [], Contract_Amount = [], Numbers3 = [],
      Assigned_Person = [], Client_Type = []\<rparr> =
     \<lparr>df_Item = n, df_Close_Date = d, df_Lead_Status = s,
      df_Amount_Paid_or_Contract_Value = None, df_Contract_Amount = None, df_Numbers3 = None,
      df_Assigned_Person = [], df_Client_Type = [], df_Total_Value = None\<rparr>"
  by (simp add: to_row_def Let_def to_numeric_examples coerce_contract_amount_examples
      total_value_def fillna_def)

lemma to_datetime_examples:
  "to_datetime [] = None"
  "to_datetime ''not a date'' = None"
  "to_datetime ''2025-13-45'' = None"
  "to_datetime ''2024-02-30'' = None"
  "to_datetime ''2024-03-15'' = Some \<lparr>year = 2024, month = 3, day = 15\<rparr>"
  "to_datetime ''2025-06-01'' = Some \<lparr>year = 2025, month = 6, day = 1\<rparr>"
  by (simp_all add: to_datetime_def decimal_def digit_val_def days_in_month_def leap_year_def)

text \<open>
  C4. Whatever the fetched data, every row of \<^verbatim>\<open>df_filtered\<close> and of
  \<^verbatim>\<open>df_2025\<close> has the Lead Status "Closed", letter for letter; so a row whose
  status is "closed" or "Open" is in neither table.
\<close>

theorem status_filter_exact:
  assumes "process_sales_data data = Frames df_filtered df_2025"
  shows "(\<forall>x \<in> set df_filtered. df_Lead_Status (row x) = ''Closed'')
       \<and> (\<forall>r \<in> set df_2025. df_Lead_Status r = ''Closed'')
       \<and> (\<forall>x \<in> set df_filtered. df_Lead_Status (row x) \<noteq> ''closed''
                                \<and> df_Lead_Status (row x) \<noteq> ''Open'')"
proof -
  from assms obtain its where
    f: "df_filtered = map with_year_month (filter final_mask (sales_table its))" and
    g: "df_2025 = filter year_2025_mask (filter final_mask (sales_table its))"
    by (rule process_sales_data_Frames)
  have closed: "df_Lead_Status r = ''Closed''" if "final_mask r" for r
    using that by (simp add: final_mask_def closed_status_mask_def)
  have "\<forall>x \<in> set df_filtered. df_Lead_Status (row x) = ''Closed''"
    unfolding f by (auto simp: with_year_month_fields closed)
  moreover have "\<forall>r \<in> set df_2025. df_Lead_Status r = ''Closed''"
    unfolding g by (auto simp: closed)
  ultimately show ?thesis
    by auto
qed

text \<open>
  Three items with the status "Closed", "closed" and "Open": only the first is in
  \<^verbatim>\<open>df_filtered\<close>.
\<close>

theorem status_filter_exact_witness:
  "process_sales_data (Some [[
      \<lparr>item_name = ''a'', column_values =
         [\<lparr>cv_id = ''color_mknxd1j2'', cv_text = Some ''Closed''\<rparr>,
          \<lparr>cv_id = ''date_mktq7npm'', cv_text = Some ''2024-03-15''\<rparr>]\<rparr>,
      \<lparr>item_name = ''b'', column_values =
         [\<lparr>cv_id = ''color_mknxd1j2'', cv_text = Some ''closed''\<rparr>,
          \<lparr>cv_id = ''date_mktq7npm'', cv_text = Some ''2024-03-15''\<rparr>]\<rparr>,
      \<lparr>item_name = ''c'', column_values =
         [\<lparr>cv_id = ''color_mknxd1j2'', cv_text = Some ''Open''\<rparr>,
          \<lparr>cv_id = ''date_mktq7npm'', cv_text = Some ''2024-03-15''\<rparr>]\<rparr>]])
   = Frames
       [\<lparr>row = \<lparr>df_Item = ''a'', df_Close_Date = ''2024-03-15'', df_Lead_Status = ''Closed'',
                 df_Amount_Paid_or_Contract_Value = None, df_Contract_Amount = None,
                 df_Numbers3 = None, df_Assigned_Person = [], df_Client_Type = [],
                 df_Total_Value = None\<rparr>,
         Close_Date_parsed = Some \<lparr>year = 2024, month = 3, day = 15\<rparr>,
         Year = Some 2024, Month = Some 3, Month_Name = Some ''March''\<rparr>]
       []"
proof -
  have run: "process_sales_data (Some [[
      \<lparr>item_name = ''a'', column_values =
         [\<lparr>cv_id = ''color_mknxd1j2'', cv_text = Some ''Closed''\<rparr>,
          \<lparr>cv_id = ''date_mktq7npm'', cv_text = Some ''2024-03-15''\<rparr>]\<rparr>,
      \<lparr>item_name = ''b'', column_values =
         [\<lparr>cv_id = ''color_mknxd1j2'', cv_text = Some ''closed''\<rparr>,
          \<lparr>cv_id = ''date_mktq7npm'', cv_text = Some ''2024-03-15''\<rparr>]\<rparr>,
      \<lparr>item_name = ''c'', column_values =
         [\<lparr>cv_id = ''color_mknxd1j2'', cv_text = Some ''Open''\<rparr>,
          \<lparr>cv_id = ''date_mktq7npm'', cv_text = Some ''2024-03-15''\<rparr>]\<rparr>]])
   = Frames
       [\<lparr>row = \<lparr>df_Item = ''a'', df_Close_Date = ''2024-03-15'', df_Lead_Status = ''Closed'',
                 df_Amount_Paid_or_Contract_Value = None, df_Contract_Amount = None,
                 df_Numbers3 = None, df_Assigned_Person = [], df_Client_Type = [],
                 df_Total_Value = None\<rparr>,
         Close_Date_parsed = Some \<lparr>year = 2024, month = 3, day = 15\<rparr>,
         Year = Some 2024, Month = Some 3, Month_Name = Some ''March''\<rparr>]
       []"
    by (simp add: process_sales_data_def sales_table_def extract_record_status to_row_no_amounts
        mask_defs year_2025_mask_def with_year_month_def to_datetime_examples strftime_B_def
        month_name_def month_names_def)
  from status_filter_exact [OF run] run show ?thesis
    by simp
qed

text \<open>
  C5, as the specification has it: a row whose two amounts are both null passes the
  amount filter only where a setting allows it, and is left out otherwise. The code has no
  such setting: \<^verbatim>\<open>both_null_mask\<close> is always one of the three alternatives of the
  amount filter. An item with the status "Closed" and no amount at all is therefore in
  \<^verbatim>\<open>df_filtered\<close>, with nothing configured.
\<close>

theorem both_null_row_kept:
  "both_null_mask (to_row (extract_record \<lparr>item_name = ''a'', column_values =
         [\<lparr>cv_id = ''color_mknxd1j2'', cv_text = Some ''Closed''\<rparr>,
          \<lparr>cv_id = ''date_mktq7npm'', cv_text = Some ''2024-03-15''\<rparr>]\<rparr>))
   \<and> process_sales_data (Some [[\<lparr>item_name = ''a'', column_values =
         [\<lparr>cv_id = ''color_mknxd1j2'', cv_text = Some ''Closed''\<rparr>,
          \<lparr>cv_id = ''date_mktq7npm'', cv_text = Some ''2024-03-15''\<rparr>]\<rparr>]])
     = Frames
       [\<lparr>row = \<lparr>df_Item = ''a'', df_Close_Date = ''2024-03-15'', df_Lead_Status = ''Closed'',
                 df_Amount_Paid_or_Contract_Value = None, df_Contract_Amount = None,
                 df_Numbers3 = None, df_Assigned_Person = [], df_Client_Type = [],
                 df_Total_Value = None\<rparr>,
         Close_Date_parsed = Some \<lparr>year = 2024, month = 3, day = 15\<rparr>,
         Year = Some 2024, Month = Some 3, Month_Name = Some ''March''\<rparr>]
       []"
  by (simp add: process_sales_data_def sales_table_def extract_record_status to_row_no_amounts
      mask_defs year_2025_mask_def with_year_month_def to_datetime_examples strftime_B_def
      month_name_def month_names_def)

lemma process_sales_data_boards:
  assumes "process_sales_data (Some bs) = Frames df_filtered df_2025"
  shows "df_filtered = map with_year_month (filter final_mask (sales_table (concat bs)))"
    and "df_2025 = filter year_2025_mask (filter final_mask (sales_table (concat bs)))"
  using assms
  by (auto simp: process_sales_data_def Let_def split: if_splits)

text \<open>
  C5, amended. A row whose two amounts are both null always passes the amount filter:
  the code has no setting that would leave it out. The row of an item of the fetched
  boards with both amounts null is in \<^verbatim>\<open>df_filtered\<close> exactly when its Lead
  Status is "Closed".
\<close>

theorem both_null_always_passes:
  assumes "process_sales_data (Some bs) = Frames df_filtered df_2025"
    and "it \<in> set (concat bs)"
    and "df_Contract_Amount (to_row (extract_record it)) = None"
    and "df_Numbers3 (to_row (extract_record it)) = None"
  shows "amount_mask (to_row (extract_record it))
       \<and> (with_year_month (to_row (extract_record it)) \<in> set df_filtered)
           = (df_Lead_Status (to_row (extract_record it)) = ''Closed'')"
proof -
  let ?r = "to_row (extract_record it)"
  have amount: "amount_mask ?r"
    using assms(3,4) by (simp add: amount_mask_def both_null_mask_def)
  have table: "?r \<in> set (sales_table (concat bs))"
    using assms(2) by (auto simp: sales_table_def)
  have "with_year_month ?r \<in> set df_filtered \<longleftrightarrow> ?r \<in> set (filter final_mask (sales_table (concat bs)))"
  proof
    assume "with_year_month ?r \<in> set df_filtered"
    then obtain r' where r': "r' \<in> set (filter final_mask (sales_table (concat bs)))"
      and eq: "with_year_month ?r = with_year_month r'"
      unfolding process_sales_data_boards(1) [OF assms(1)] by auto
    from eq have "row (with_year_month ?r) = row (with_year_month r')"
      by simp
    then have "?r = r'"
      by (simp only: with_year_month_fields)
    with r' show "?r \<in> set (filter final_mask (sales_table (concat bs)))"
      by simp
  next
    assume "?r \<in> set (filter final_mask (sales_table (concat bs)))"
    then show "with_year_month ?r \<in> set df_filtered"
      unfolding process_sales_data_boards(1) [OF assms(1)] by simp
  qed
  also have "\<dots> \<longleftrightarrow> final_mask ?r"
    using table by simp
  also have "\<dots> \<longleftrightarrow> df_Lead_Status ?r = ''Closed''"
    using amount by (simp add: final_mask_def closed_status_mask_def)
  finally show ?thesis
    using amount by simp
qed

text \<open>
  Two items without amounts, one "Closed" and one "Open": the first is in
  \<^verbatim>\<open>df_filtered\<close>, the second is not.
\<close>

theorem both_null_always_passes_witness:
  "process_sales_data (Some [[
      \<lparr>item_name = ''a'', column_values =
         [\<lparr>cv_id = ''color_mknxd1j2'', cv_text = Some ''Closed''\<rparr>,
          \<lparr>cv_id = ''date_mktq7npm'', cv_text = Some ''2024-03-15''\<rparr>]\<rparr>,
      \<lparr>item_name = ''b'', column_values =
         [\<lparr>cv_id = ''color_mknxd1j2'', cv_text = Some ''Open''\<rparr>,
          \<lparr>cv_id = ''date_mktq7npm'', cv_text = Some ''2024-03-15''\<rparr>]\<rparr>]])
     = Frames
       [\<lparr>row = \<lparr>df_Item = ''a'', df_Close_Date = ''2024-03-15'', df_Lead_Status = ''Closed'',
                 df_Amount_Paid_or_Contract_Value = None, df_Contract_Amount = None,
                 df_Numbers3 = None, df_Assigned_Person = [], df_Client_Type = [],
                 df_Total_Value = None\<rparr>,
         Close_Date_parsed = Some \<lparr>year = 2024, month = 3, day = 15\<rparr>,
         Year = Some 2024, Month = Some 3, Month_Name = Some ''March''\<rparr>]
       []
   \<and> df_Contract_Amount (to_row (extract_record \<lparr>item_name = ''a'', column_values =
         [\<lparr>cv_id = ''color_mknxd1j2'', cv_text = Some ''Closed''\<rparr>,
          \<lparr>cv_id = ''date_mktq7npm'', cv_text = Some ''2024-03-15''\<rparr>]\<rparr>)) = None
   \<and> df_Numbers3 (to_row (extract_record \<lparr>item_name = ''a'', column_values =
         [\<lparr>cv_id = ''color_mknxd1j2'', cv_text = Some ''Closed''\<rparr>,
          \<lparr>cv_id = ''date_mktq7npm'', cv_text = Some ''2024-03-15''\<rparr>]\<rparr>)) = None
   \<and> amount_mask (to_row (extract_record \<lparr>item_name = ''a'', column_values =
         [\<lparr>cv_id = ''color_mknxd1j2'', cv_text = Some ''Closed''\<rparr>,
          \<lparr>cv_id = ''date_mktq7npm'', cv_text = Some ''2024-03-15''\<rparr>]\<rparr>))
   \<and> amount_mask (to_row (extract_record \<lparr>item_name = ''b'', column_values =
         [\<lparr>cv_id = ''color_mknxd1j2'', cv_text = Some ''Open''\<rparr>,
          \<lparr>cv_id = ''date_mktq7npm'', cv_text = Some ''2024-03-15''\<rparr>]\<rparr>))"
proof -
  let ?a = "\<lparr>item_name = ''a'', column_values =
         [\<lparr>cv_id = ''color_mknxd1j2'', cv_text = Some ''Closed''\<rparr>,
          \<lparr>cv_id = ''date_mktq7npm'', cv_text = Some ''2024-03-15''\<rparr>]\<rparr>"
  let ?b = "\<lparr>item_name = ''b'', column_values =
         [\<lparr>cv_id = ''color_mknxd1j2'', cv_text = Some ''Open''\<rparr>,
          \<lparr>cv_id = ''date_mktq7npm'', cv_text = Some ''2024-03-15''\<rparr>]\<rparr>"
  have run: "process_sales_data (Some [[?a, ?b]])
     = Frames
       [\<lparr>row = \<lparr>df_Item = ''a'', df_Close_Date = ''2024-03-15'', df_Lead_Status = ''Closed'',
                 df_Amount_Paid_or_Contract_Value = None, df_Contract_Amount = None,
                 df_Numbers3 = None, df_Assigned_Person = [], df_Client_Type = [],
                 df_Total_Value = None\<rparr>,
         Close_Date_parsed = Some \<lparr>year = 2024, month = 3, day = 15\<rparr>,
         Year = Some 2024, Month = Some 3, Month_Name = Some ''March''\<rparr>]
       []"
    by (simp add: process_sales_data_def sales_table_def extract_record_status to_row_no_amounts
        mask_defs year_2025_mask_def with_year_month_def to_datetime_examples strftime_B_def
        month_name_def month_names_def)
  have a: "?a \<in> set (concat [[?a, ?b]])" and b: "?b \<in> set (concat [[?a, ?b]])"
    by simp_all
  have nulls:
    "df_Contract_Amount (to_row (extract_record ?a)) = None"
    "df_Numbers3 (to_row (extract_record ?a)) = None"
    "df_Contract_Amount (to_row (extract_record ?b)) = None"
    "df_Numbers3 (to_row (extract_record ?b)) = None"
    by (simp_all add: extract_record_status to_row_no_amounts)
  from both_null_always_passes [OF run a nulls(1,2)] both_null_always_passes [OF run b nulls(3,4)]
    run nulls
  show ?thesis
    by simp
qed

section \<open>The two year filters\<close>

text \<open>A text with "2025" in it that is no date, and dates of 2025 and of another year.\<close>

lemma str_contains_2025_examples:
  "str_contains ''2025'' ''2025-13-45''"
  "str_contains ''2025'' ''2025-06-01''"
  "\<not> str_contains ''2025'' ''2024-03-15''"
  by simp_all



section \<open>The paginated fetch\<close>

text \<open>One round of the loop on a page that ends the fetch, and on a page that does not.\<close>

lemma fetch_pages_last:
  assumes "srv (Suc n) (query_cursor cur) = Json data" and "errors data = []"
    and "boards data = pg # rest"
    and "\<not> truthy (cursor pg) \<or> length (items pg) < limit"
  shows "fetch_pages srv cur acc n = Some (Some (acc @ items pg), Suc n)"
  using assms by (subst fetch_pages.simps) (auto simp: Let_def)

lemma fetch_pages_next:
  assumes "srv (Suc n) (query_cursor cur) = Json data" and "errors data = []"
    and "boards data = pg # rest"
    and "truthy (cursor pg)" and "limit \<le> length (items pg)"
  shows "fetch_pages srv cur acc n = fetch_pages srv (cursor pg) (acc @ items pg) (Suc n)"
  using assms by (subst fetch_pages.simps) (auto simp: Let_def)

text \<open>The three exception handlers return \<^verbatim>\<open>None\<close>, whatever has been fetched.\<close>

lemma fetch_pages_exception:
  assumes "srv (Suc n) (query_cursor cur) = Timeout
         \<or> srv (Suc n) (query_cursor cur) = RequestException e
         \<or> srv (Suc n) (query_cursor cur) = OtherException e"
  shows "fetch_pages srv cur acc n = Some (None, Suc n)"
  using assms by (subst fetch_pages.simps) (auto simp: Let_def)

lemma serves_Cons:
  assumes "serves srv n cur (pg # pgs)"
  shows "\<exists>data rest. srv (Suc n) (query_cursor cur) = Json data \<and> errors data = []
           \<and> boards data = pg # rest \<and> serves srv (Suc n) (cursor pg) pgs"
proof (cases "srv (Suc n) (query_cursor cur)")
  case (Json data)
  with assms show ?thesis
    by (cases "boards data") auto
qed (use assms in auto)

text \<open>
  C3. When the server answers with pages that are all full and carry a cursor, and
  then with a page that has no cursor or fewer items than the limit, the fetch returns at
  that page: it has made one request per page and hands back the items of all the
  pages in order.
\<close>

theorem pagination_terminates:
  assumes "serves srv n cur (pgs @ [pg])"
    and "\<forall>p \<in> set pgs. truthy (cursor p) \<and> limit \<le> length (items p)"
    and "\<not> truthy (cursor pg) \<or> length (items pg) < limit"
  shows "fetch_pages srv cur acc n =
           Some (Some (acc @ concat (map items (pgs @ [pg]))), n + length pgs + 1)"
  using assms
proof (induction pgs arbitrary: n cur acc)
  case Nil
  from Nil.prems(1) obtain data rest where
    "srv (Suc n) (query_cursor cur) = Json data" "errors data = []" "boards data = pg # rest"
    using serves_Cons [of srv n cur pg "[]"] by auto
  with Nil.prems(3) show ?case
    by (simp add: fetch_pages_last)
next
  case (Cons p pgs)
  from Cons.prems(1) obtain data rest where d:
    "srv (Suc n) (query_cursor cur) = Json data" "errors data = []" "boards data = p # rest"
    "serves srv (Suc n) (cursor p) (pgs @ [pg])"
    using serves_Cons [of srv n cur p "pgs @ [pg]"] by auto
  from Cons.prems(2) have full: "truthy (cursor p)" "limit \<le> length (items p)"
    and rest: "\<forall>q \<in> set pgs. truthy (cursor q) \<and> limit \<le> length (items q)"
    by simp_all
  have "fetch_pages srv cur acc n = fetch_pages srv (cursor p) (acc @ items p) (Suc n)"
    using d(1-3) full by (rule fetch_pages_next)
  also have "\<dots> = Some (Some ((acc @ items p) @ concat (map items (pgs @ [pg]))),
                       Suc n + length pgs + 1)"
    using d(4) rest Cons.prems(3) by (rule Cons.IH)
  finally show ?case by simp
qed

text \<open>
  The two fetches of the specification, under the limit of 500. Pages of 500, 500 and
  214 items: three requests and 1214 items. Pages of 500, 500 and 500 items, the third
  without a cursor: three requests again.
\<close>

theorem pagination_terminates_witness:
  "fetch_pages
     (scripted [(None, page \<lparr>cursor = Some ''c1'', items = replicate 500 lead\<rparr>),
                (Some ''c1'', page \<lparr>cursor = Some ''c2'', items = replicate 500 lead\<rparr>),
                (Some ''c2'', page \<lparr>cursor = Some ''c3'', items = replicate 214 lead\<rparr>)])
     None [] 0
   = Some (Some (replicate 1214 lead), 3)
   \<and> fetch_pages
     (scripted [(None, page \<lparr>cursor = Some ''c1'', items = replicate 500 lead\<rparr>),
                (Some ''c1'', page \<lparr>cursor = Some ''c2'', items = replicate 500 lead\<rparr>),
                (Some ''c2'', page \<lparr>cursor = None, items = replicate 500 lead\<rparr>)])
     None [] 0
   = Some (Some (replicate 1500 lead), 3)"
proof -
  let ?p1 = "\<lparr>cursor = Some ''c1'', items = replicate 500 lead\<rparr>"
  let ?p2 = "\<lparr>cursor = Some ''c2'', items = replicate 500 lead\<rparr>"
  let ?short = "\<lparr>cursor = Some ''c3'', items = replicate 214 lead\<rparr>"
  let ?final = "\<lparr>cursor = None, items = replicate 500 lead\<rparr>"
  have full: "\<forall>p \<in> set [?p1, ?p2]. truthy (cursor p) \<and> limit \<le> length (items p)"
    by (simp add: truthy_def limit_def)
  have s1: "serves (scripted [(None, page ?p1), (Some ''c1'', page ?p2), (Some ''c2'', page ?short)])
              0 None ([?p1, ?p2] @ [?short])"
    by (simp add: scripted_def page_def query_cursor_def truthy_def)
  have s2: "serves (scripted [(None, page ?p1), (Some ''c1'', page ?p2), (Some ''c2'', page ?final)])
              0 None ([?p1, ?p2] @ [?final])"
    by (simp add: scripted_def page_def query_cursor_def truthy_def)
  have e1: "\<not> truthy (cursor ?short) \<or> length (items ?short) < limit"
    by (simp add: limit_def)
  have e2: "\<not> truthy (cursor ?final) \<or> length (items ?final) < limit"
    by (simp add: truthy_def)
  from pagination_terminates [OF s1 full e1, of "[]"] pagination_terminates [OF s2 full e2, of "[]"]
  show ?thesis
    by (simp add: replicate_add [symmetric])
qed

text \<open>
  C2. The exception handlers give \<^verbatim>\<open>None\<close>, but an error payload in a successful
  answer only leaves the loop: \<^verbatim>\<open>get_sales_data\<close> then returns the items of the pages
  before it. Here the first page has 500 items and a cursor, and the second request is
  answered with an error payload: the caller gets the 500 items after two requests.
\<close>

theorem api_error_returns_partial_items:
  "fetch_pages
     (scripted [(None, page \<lparr>cursor = Some ''c1'', items = replicate 500 lead\<rparr>),
                (Some ''c1'', Json \<lparr>errors = [''Complexity budget exhausted''], boards = []\<rparr>)])
     None [] 0
   = Some (Some (replicate 500 lead), 2)
   \<and> get_sales_data
     (scripted [(None, page \<lparr>cursor = Some ''c1'', items = replicate 500 lead\<rparr>),
                (Some ''c1'', Json \<lparr>errors = [''Complexity budget exhausted''], boards = []\<rparr>)])
   = Some (Some [replicate 500 lead])"
proof -
  let ?srv = "scripted [(None, page \<lparr>cursor = Some ''c1'', items = replicate 500 lead\<rparr>),
                (Some ''c1'', Json \<lparr>errors = [''Complexity budget exhausted''], boards = []\<rparr>)]"
  have "fetch_pages ?srv None [] 0 = fetch_pages ?srv (Some ''c1'') (replicate 500 lead) (Suc 0)"
    by (subst fetch_pages.simps)
       (simp add: scripted_def page_def query_cursor_def truthy_def limit_def Let_def)
  also have "\<dots> = Some (Some (replicate 500 lead), 2)"
    by (subst fetch_pages.simps)
       (simp add: scripted_def page_def query_cursor_def truthy_def limit_def Let_def)
  finally have "fetch_pages ?srv None [] 0 = Some (Some (replicate 500 lead), 2)" .
  then show ?thesis
    by (simp add: get_sales_data_def)
qed

text \<open>With a timeout in place of the error payload the same fetch returns nothing.\<close>

lemma timeout_returns_no_data:
  "get_sales_data
     (scripted [(None, page \<lparr>cursor = Some ''c1'', items = replicate 500 lead\<rparr>),
                (Some ''c1'', Timeout)])
   = Some None"
proof -
  let ?srv = "scripted [(None, page \<lparr>cursor = Some ''c1'', items = replicate 500 lead\<rparr>),
                (Some ''c1'', Timeout)]"
  have "fetch_pages ?srv None [] 0 = fetch_pages ?srv (Some ''c1'') (replicate 500 lead) (Suc 0)"
    by (subst fetch_pages.simps)
       (simp add: scripted_def page_def query_cursor_def truthy_def limit_def Let_def)
  also have "\<dots> = Some (None, 2)"
    by (subst fetch_pages.simps)
       (simp add: scripted_def page_def query_cursor_def truthy_def limit_def Let_def)
  finally show ?thesis
    by (simp add: get_sales_data_def)
qed

section \<open>The ad-spend viewer: date coercion\<close>

lemma strftime_B_Y_examples:
  "strftime_B_Y None = None"
  "strftime_B_Y (Some \<lparr>year = 2024, month = 3, day = 15\<rparr>) = Some ''March 2024''"
  "strftime_B_Y (Some \<lparr>year = 2024, month = 3, day = 16\<rparr>) = Some ''March 2024''"
  by (simp_all add: strftime_B_Y_def month_name_def month_names_def)

lemma strftime_B_Y_None: "(strftime_B_Y d = None) = (d = None)"
  by (simp add: strftime_B_Y_def)

lemma format_record_fields:
  "row_Item (format_record lib fmt r) = ad_Item r"
  "row_Attribution_Date (format_record lib fmt r) = read_cell lib fmt (Attribution_Date r)"
  "row_Month_Year (format_record lib fmt r) = strftime_B_Y (read_cell lib fmt (Attribution_Date r))"
  by (simp_all add: format_record_def Let_def)

text \<open>The loop over the column values never changes the name of the item.\<close>

lemma fold_assign_ad_Item:
  "ad_Item r = item_name it \<Longrightarrow> ad_Item (fold (assign_ad_column it) cvs r) = item_name it"
  by (induction cvs arbitrary: r) (simp_all add: assign_ad_column_def Let_def)

lemma ad_Item_extract: "ad_Item (extract_ad_record it) = item_name it"
  by (simp add: extract_ad_record_def fold_assign_ad_Item)

text \<open>Sorting moves rows and neither adds nor drops one.\<close>

lemma set_sort_values_date: "set (sort_values_date rs) = set rs"
  by (auto simp: sort_values_date_def)

text \<open>What \<^verbatim>\<open>format_data\<close> returns when the board has items and nothing is raised.\<close>

lemma format_data_rows:
  assumes "format_data lib (Some (its # bs)) = Inr df"
  shows "set (rows df) =
           format_record lib (column_format lib (map Attribution_Date (map extract_ad_record its)))
             ` set (map extract_ad_record its)"
proof (cases "its = []")
  case True
  with assms show ?thesis
    by (auto simp: format_data_def empty_frame_def)
next
  case False
  with assms show ?thesis
    by (auto simp: format_data_def Let_def set_sort_values_date split: if_splits)
qed

text \<open>The two example formats on the texts of the examples.\<close>

lemma iso_date_examples:
  "iso_date [] = None"
  "iso_date ''not a date'' = None"
  "iso_date ''03/16/2024'' = None"
  "iso_date ''2024-03-15'' = Some \<lparr>year = 2024, month = 3, day = 15\<rparr>"
  "iso_date ''0000-01-01'' = Some \<lparr>year = 0, month = 1, day = 1\<rparr>"
  by (simp_all add: iso_date_def calendar_date_def decimal_def digit_val_def days_in_month_def)

lemma us_date_examples:
  "us_date ''not a date'' = None"
  "us_date ''2024-03-15'' = None"
  "us_date ''03/16/2024'' = Some \<lparr>year = 2024, month = 3, day = 16\<rparr>"
  by (simp_all add: us_date_def calendar_date_def decimal_def digit_val_def days_in_month_def)

lemma null_text_examples:
  "null_text []"
  "\<not> null_text ''not a date''"
  "\<not> null_text ''2024-03-15''"
  "\<not> null_text ''03/16/2024''"
  "\<not> null_text ''0000-01-01''"
  by (simp_all add: null_text_def nat_strings_def)

lemma extract_ad_record_example:
  "extract_ad_record \<lparr>item_name = n, column_values =
       [\<lparr>cv_id = ''date_mkv81p3z'', cv_text = Some d\<rparr>,
        \<lparr>cv_id = ''numeric_mkv863mb'', cv_text = Some v\<rparr>]\<rparr>
     = \<lparr>ad_Item = n, Attribution_Date = d, Google_Adspend = v\<rparr>"
  by (simp add: extract_ad_record_def assign_ad_column_def text_or_empty_def)

text \<open>
  C9, as the specification has it: the text "2024-03-15" becomes the date 2024-03-15
  with the label "March 2024". The column is read in one format, that of its first text.
  On a board whose first item has the date "03/16/2024" the second item, with the date
  "2024-03-15", gets a null date and a null label.
\<close>

theorem date_text_after_other_format:
  "format_data two_formats (Some [[
      \<lparr>item_name = ''x'', column_values =
         [\<lparr>cv_id = ''date_mkv81p3z'', cv_text = Some ''03/16/2024''\<rparr>,
          \<lparr>cv_id = ''numeric_mkv863mb'', cv_text = Some ''40''\<rparr>]\<rparr>,
      \<lparr>item_name = ''y'', column_values =
         [\<lparr>cv_id = ''date_mkv81p3z'', cv_text = Some ''2024-03-15''\<rparr>,
          \<lparr>cv_id = ''numeric_mkv863mb'', cv_text = Some ''40''\<rparr>]\<rparr>]])
   = Inr \<lparr>columns = [''Item'', ''Attribution Date'', ''Google Adspend'', ''Month Year''],
          rows = [\<lparr>row_Item = ''x'', row_Attribution_Date = Some \<lparr>year = 2024, month = 3, day = 16\<rparr>,
                   row_Google_Adspend = Some 40, row_Month_Year = Some ''March 2024'',
                   row_Year = None\<rparr>,
                  \<lparr>row_Item = ''y'', row_Attribution_Date = None,
                   row_Google_Adspend = Some 40, row_Month_Year = None,
                   row_Year = None\<rparr>]\<rparr>"
proof -
  have fmt: "column_format two_formats [''03/16/2024'', ''2024-03-15''] = Some ''%m/%d/%Y''"
    by (simp add: column_format_def first_non_null_def null_text_examples two_formats_def
        iso_date_examples us_date_examples)
  have cells:
    "read_cell two_formats (Some ''%m/%d/%Y'') ''03/16/2024'' = Some \<lparr>year = 2024, month = 3, day = 16\<rparr>"
    "read_cell two_formats (Some ''%m/%d/%Y'') ''2024-03-15'' = None"
    by (simp_all add: read_cell_def null_text_examples two_formats_def us_date_examples)
  show ?thesis
    by (simp add: format_data_def extract_ad_record_example to_datetime_column_def fmt cells
        strftime_raises_def format_record_def sort_values_date_def date_key_def
        strftime_B_Y_examples to_numeric_examples)
qed

text \<open>
  C9, amended. The date column is coerced as a whole, in the format pandas guesses from
  its first text. Whenever \<^verbatim>\<open>format_data\<close> returns a table, every item of the board
  has a row in it; the date of that row is the item's date text read in the format of the
  column and its label is the month and year of that date; a label is null exactly when
  its date is. So an empty text, and a text that the format of the column does not
  read, give a null date and a null label; and where the format of the column reads
  "2024-03-15" as the 15th of March 2024, an item with that text has that date and the
  label "March 2024".
\<close>

theorem date_coercion_by_column:
  assumes "format_data lib (Some (its # bs)) = Inr df"
    and "texts = map (\<lambda>i. Attribution_Date (extract_ad_record i)) its"
  shows "(\<forall>r \<in> set (rows df). (row_Month_Year r = None) = (row_Attribution_Date r = None))
       \<and> (\<forall>it \<in> set its. \<exists>r \<in> set (rows df).
             row_Item r = item_name it
           \<and> row_Attribution_Date r =
               read_cell lib (column_format lib texts) (Attribution_Date (extract_ad_record it))
           \<and> row_Month_Year r = strftime_B_Y (row_Attribution_Date r))
       \<and> (\<forall>it \<in> set its. Attribution_Date (extract_ad_record it) = [] \<longrightarrow>
             (\<exists>r \<in> set (rows df). row_Item r = item_name it
                \<and> row_Attribution_Date r = None \<and> row_Month_Year r = None))
       \<and> (\<forall>it \<in> set its. \<forall>f.
             column_format lib texts = Some f
           \<and> strptime lib f (Attribution_Date (extract_ad_record it)) = None \<longrightarrow>
             (\<exists>r \<in> set (rows df). row_Item r = item_name it
                \<and> row_Attribution_Date r = None \<and> row_Month_Year r = None))
       \<and> (\<forall>it \<in> set its. \<forall>f.
             column_format lib texts = Some f
           \<and> strptime lib f ''2024-03-15'' = Some \<lparr>year = 2024, month = 3, day = 15\<rparr>
           \<and> Attribution_Date (extract_ad_record it) = ''2024-03-15'' \<longrightarrow>
             (\<exists>r \<in> set (rows df). row_Item r = item_name it
                \<and> row_Attribution_Date r = Some \<lparr>year = 2024, month = 3, day = 15\<rparr>
                \<and> row_Month_Year r = Some ''March 2024''))"
proof -
  let ?fmt = "column_format lib texts"
  let ?row = "\<lambda>it. format_record lib ?fmt (extract_ad_record it)"
  have texts: "map Attribution_Date (map extract_ad_record its) = texts"
    by (simp add: assms(2))
  have rows: "set (rows df) = ?row ` set its"
    using format_data_rows [OF assms(1)] unfolding texts by (simp add: image_image)
  have label: "(row_Month_Year r = None) = (row_Attribution_Date r = None)" if "r \<in> set (rows df)" for r
    using that unfolding rows by (auto simp: format_record_fields strftime_B_Y_None)
  have row: "?row it \<in> set (rows df) \<and> row_Item (?row it) = item_name it
      \<and> row_Attribution_Date (?row it) = read_cell lib ?fmt (Attribution_Date (extract_ad_record it))
      \<and> row_Month_Year (?row it) = strftime_B_Y (row_Attribution_Date (?row it))"
    if "it \<in> set its" for it
    using that unfolding rows by (simp add: format_record_fields ad_Item_extract)
  have empty: "\<exists>r \<in> set (rows df). row_Item r = item_name it
      \<and> row_Attribution_Date r = None \<and> row_Month_Year r = None"
    if "it \<in> set its" and "Attribution_Date (extract_ad_record it) = []" for it
    using row [OF that(1)] that(2)
    by (intro bexI [of _ "?row it"]) (simp_all add: read_cell_def null_text_def strftime_B_Y_def)
  have unread: "\<exists>r \<in> set (rows df). row_Item r = item_name it
      \<and> row_Attribution_Date r = None \<and> row_Month_Year r = None"
    if "it \<in> set its" and "?fmt = Some f"
      and "strptime lib f (Attribution_Date (extract_ad_record it)) = None" for it f
    using row [OF that(1)] that(2,3)
    by (intro bexI [of _ "?row it"]) (simp_all add: read_cell_def strftime_B_Y_def)
  have march: "\<exists>r \<in> set (rows df). row_Item r = item_name it
      \<and> row_Attribution_Date r = Some \<lparr>year = 2024, month = 3, day = 15\<rparr>
      \<and> row_Month_Year r = Some ''March 2024''"
    if "it \<in> set its" and "?fmt = Some f"
      and "strptime lib f ''2024-03-15'' = Some \<lparr>year = 2024, month = 3, day = 15\<rparr>"
      and "Attribution_Date (extract_ad_record it) = ''2024-03-15''" for it f
    using row [OF that(1)] that(2,3,4)
    by (intro bexI [of _ "?row it"])
       (simp_all add: read_cell_def null_text_examples strftime_B_Y_examples)
  show ?thesis
    using label row empty unread march by blast
qed

text \<open>
  A board with the date texts "2024-03-15", empty and "not a date": the column has the
  format of the first, which gets its date and the label "March 2024"; the two others
  get a null date and a null label, and all three items have their row.
\<close>

theorem date_coercion_by_column_witness:
  "format_data two_formats (Some [[
      \<lparr>item_name = ''a'', column_values =
         [\<lparr>cv_id = ''date_mkv81p3z'', cv_text = Some ''2024-03-15''\<rparr>,
          \<lparr>cv_id = ''numeric_mkv863mb'', cv_text = Some ''40''\<rparr>]\<rparr>,
      \<lparr>item_name = ''b'', column_values =
         [\<lparr>cv_id = ''date_mkv81p3z'', cv_text = Some []\<rparr>,
          \<lparr>cv_id = ''numeric_mkv863mb'', cv_text = Some ''40''\<rparr>]\<rparr>,
      \<lparr>item_name = ''c'', column_values =
         [\<lparr>cv_id = ''date_mkv81p3z'', cv_text = Some ''not a date''\<rparr>,
          \<lparr>cv_id = ''numeric_mkv863mb'', cv_text = Some ''40''\<rparr>]\<rparr>]])
   = Inr \<lparr>columns = [''Item'', ''Attribution Date'', ''Google Adspend'', ''Month Year''],
          rows = [\<lparr>row_Item = ''a'', row_Attribution_Date = Some \<lparr>year = 2024, month = 3, day = 15\<rparr>,
                   row_Google_Adspend = Some 40, row_Month_Year = Some ''March 2024'',
                   row_Year = None\<rparr>,
                  \<lparr>row_Item = ''b'', row_Attribution_Date = None,
                   row_Google_Adspend = Some 40, row_Month_Year = None, row_Year = None\<rparr>,
                  \<lparr>row_Item = ''c'', row_Attribution_Date = None,
                   row_Google_Adspend = Some 40, row_Month_Year = None, row_Year = None\<rparr>]\<rparr>
   \<and> column_format two_formats [''2024-03-15'', [], ''not a date''] = Some ''%Y-%m-%d''
   \<and> strptime two_formats ''%Y-%m-%d'' ''2024-03-15'' = Some \<lparr>year = 2024, month = 3, day = 15\<rparr>
   \<and> strptime two_formats ''%Y-%m-%d'' ''not a date'' = None"
proof -
  let ?its = "[\<lparr>item_name = ''a'', column_values =
         [\<lparr>cv_id = ''date_mkv81p3z'', cv_text = Some ''2024-03-15''\<rparr>,
          \<lparr>cv_id = ''numeric_mkv863mb'', cv_text = Some ''40''\<rparr>]\<rparr>,
      \<lparr>item_name = ''b'', column_values =
         [\<lparr>cv_id = ''date_mkv81p3z'', cv_text = Some []\<rparr>,
          \<lparr>cv_id = ''numeric_mkv863mb'', cv_text = Some ''40''\<rparr>]\<rparr>,
      \<lparr>item_name = ''c'', column_values =
         [\<lparr>cv_id = ''date_mkv81p3z'', cv_text = Some ''not a date''\<rparr>,
          \<lparr>cv_id = ''numeric_mkv863mb'', cv_text = Some ''40''\<rparr>]\<rparr>]"
  have fmt: "column_format two_formats [''2024-03-15'', [], ''not a date''] = Some ''%Y-%m-%d''"
    by (simp add: column_format_def first_non_null_def null_text_examples two_formats_def
        iso_date_examples)
  have lib:
    "strptime two_formats ''%Y-%m-%d'' ''2024-03-15'' = Some \<lparr>year = 2024, month = 3, day = 15\<rparr>"
    "strptime two_formats ''%Y-%m-%d'' ''not a date'' = None"
    by (simp_all add: two_formats_def iso_date_examples)
  have cells:
    "read_cell two_formats (Some ''%Y-%m-%d'') ''2024-03-15'' = Some \<lparr>year = 2024, month = 3, day = 15\<rparr>"
    "read_cell two_formats (Some ''%Y-%m-%d'') [] = None"
    "read_cell two_formats (Some ''%Y-%m-%d'') ''not a date'' = None"
    by (simp_all add: read_cell_def null_text_examples lib)
  have run: "format_data two_formats (Some [?its])
   = Inr \<lparr>columns = [''Item'', ''Attribution Date'', ''Google Adspend'', ''Month Year''],
          rows = [\<lparr>row_Item = ''a'', row_Attribution_Date = Some \<lparr>year = 2024, month = 3, day = 15\<rparr>,
                   row_Google_Adspend = Some 40, row_Month_Year = Some ''March 2024'',
                   row_Year = None\<rparr>,
                  \<lparr>row_Item = ''b'', row_Attribution_Date = None,
                   row_Google_Adspend = Some 40, row_Month_Year = None, row_Year = None\<rparr>,
                  \<lparr>row_Item = ''c'', row_Attribution_Date = None,
                   row_Google_Adspend = Some 40, row_Month_Year = None, row_Year = None\<rparr>]\<rparr>"
    by (simp add: format_data_def extract_ad_record_example to_datetime_column_def fmt cells
        strftime_raises_def format_record_def sort_values_date_def date_key_def
        strftime_B_Y_examples to_numeric_examples)
  have texts: "[''2024-03-15'', [], ''not a date''] = map (\<lambda>i. Attribution_Date (extract_ad_record i)) ?its"
    by (simp add: extract_ad_record_example)
  from date_coercion_by_column [OF run texts] run fmt lib show ?thesis
    by simp
qed

text \<open>
  The exception is a result of the model: a board whose one date text is "0000-01-01"
  has a date of the year 0, and \<^verbatim>\<open>format_data\<close> raises.
\<close>

lemma format_data_year_zero:
  "format_data two_formats (Some [[
      \<lparr>item_name = ''z'', column_values =
         [\<lparr>cv_id = ''date_mkv81p3z'', cv_text = Some ''0000-01-01''\<rparr>,
          \<lparr>cv_id = ''numeric_mkv863mb'', cv_text = Some ''40''\<rparr>]\<rparr>]])
   = Inl Strftime_Out_Of_Range"
proof -
  have fmt: "column_format two_formats [''0000-01-01''] = Some ''%Y-%m-%d''"
    by (simp add: column_format_def first_non_null_def null_text_examples two_formats_def
        iso_date_examples)
  have cell: "read_cell two_formats (Some ''%Y-%m-%d'') ''0000-01-01'' = Some \<lparr>year = 0, month = 1, day = 1\<rparr>"
    by (simp add: read_cell_def null_text_examples two_formats_def iso_date_examples)
  show ?thesis
    by (simp add: format_data_def extract_ad_record_example to_datetime_column_def fmt cell
        strftime_raises_def)
qed

section \<open>The ad-spend viewer: the table and the CSV file\<close>

lemma frame_fields:
  "columns (dropna_date df) = columns df"
  "rows (dropna_date df) = filter (\<lambda>r. row_Attribution_Date r \<noteq> None) (rows df)"
  "columns (dropna_date_adspend df) = columns df"
  "rows (dropna_date_adspend df) =
     filter (\<lambda>r. row_Attribution_Date r \<noteq> None \<and> row_Google_Adspend r \<noteq> None) (rows df)"
  "''Year'' \<notin> set (columns df) \<Longrightarrow> columns (add_year df) = columns df @ [''Year'']"
  by (simp_all add: dropna_date_def dropna_date_adspend_def add_year_def)

lemma columns_format_data:
  assumes "format_data lib data = Inr df"
  shows "df = empty_frame \<or>
         columns df = [''Item'', ''Attribution Date'', ''Google Adspend'', ''Month Year'']"
  using assms
  by (auto simp: format_data_def Let_def split: option.splits list.splits if_splits)

text \<open>
  When \<^verbatim>\<open>main\<close> shows a table, the table and the file come from one
  \<^verbatim>\<open>df_chart\<close>, whose columns are those of \<open>df\<close> and "Year".
\<close>

lemma main_export_Some:
  assumes "main_export df selected_year = Some e" and "''Year'' \<notin> set (columns df)"
  shows "\<exists>df_chart.
            e = \<lparr>displayed = select_columns [''Item'', ''Attribution Date'', ''Year'', ''Google Adspend''] df_chart,
                 csv = to_csv df_chart\<rparr>
          \<and> columns df_chart = columns df @ [''Year'']"
proof (cases "frame_empty (dropna_date df)")
  case True
  have ne: "\<not> frame_empty df"
    using assms(1) by (auto simp: main_export_def split: if_splits)
  with True have "rows (dropna_date df) = []"
    by (simp add: frame_empty_def frame_fields)
  then have "frame_empty (dropna_date_adspend (dropna_date df))"
    by (simp add: frame_empty_def frame_fields)
  with True ne have "main_export df selected_year = None"
    by (simp add: main_export_def Let_def)
  with assms(1) show ?thesis by simp
next
  case False
  define df_filtered where "df_filtered =
    (case selected_year of None \<Rightarrow> add_year (dropna_date df)
     | Some y \<Rightarrow> (add_year (dropna_date df))
         \<lparr>rows := filter (\<lambda>r. row_Year r = Some y) (rows (add_year (dropna_date df)))\<rparr>)"
  define df_chart where "df_chart = dropna_date_adspend df_filtered"
  have cols: "columns df_chart = columns df @ [''Year'']"
    using assms(2)
    by (simp add: df_chart_def df_filtered_def frame_fields split: option.split)
  have ne: "\<not> frame_empty df"
    using assms(1) by (auto simp: main_export_def split: if_splits)
  have "main_export df selected_year =
      (if \<not> frame_empty df_chart then
         Some \<lparr>displayed = select_columns
                  (if ''Year'' \<in> set (columns df_chart)
                   then [''Item'', ''Attribution Date'', ''Year'', ''Google Adspend'']
                   else [''Item'', ''Attribution Date'', ''Google Adspend'']) df_chart,
               csv = to_csv df_chart\<rparr>
       else None)"
    using ne False by (simp add: main_export_def Let_def df_chart_def df_filtered_def)
  with assms(1) cols have
    "e = \<lparr>displayed = select_columns [''Item'', ''Attribution Date'', ''Year'', ''Google Adspend''] df_chart,
          csv = to_csv df_chart\<rparr>"
    by (simp split: if_splits)
  with cols show ?thesis by blast
qed

lemma main_Some:
  assumes "main lib data selected_year = Inr (Some e)"
  obtains df where "format_data lib data = Inr df" and "main_export df selected_year = Some e"
  using assms by (auto simp: main_def split: sum.splits)

lemma main_example:
  "main two_formats (Some [[
      \<lparr>item_name = ''ad'', column_values =
         [\<lparr>cv_id = ''date_mkv81p3z'', cv_text = Some ''2024-03-15''\<rparr>,
          \<lparr>cv_id = ''numeric_mkv863mb'', cv_text = Some ''40''\<rparr>]\<rparr>]]) None
   = Inr (Some \<lparr>displayed =
       \<lparr>columns = [''Item'', ''Attribution Date'', ''Year'', ''Google Adspend''],
        rows = [\<lparr>row_Item = ''ad'', row_Attribution_Date = Some \<lparr>year = 2024, month = 3, day = 15\<rparr>,
                 row_Google_Adspend = Some 40, row_Month_Year = Some ''March 2024'',
                 row_Year = Some 2024\<rparr>]\<rparr>,
      csv =
       \<lparr>csv_header = [''Item'', ''Attribution Date'', ''Google Adspend'', ''Month Year'', ''Year''],
        csv_rows = [[Text ''ad'', Timestamp \<lparr>year = 2024, month = 3, day = 15\<rparr>,
                     Number 40, Text ''March 2024'', Integer 2024]]\<rparr>\<rparr>)"
proof -
  have fmt: "column_format two_formats [''2024-03-15''] = Some ''%Y-%m-%d''"
    by (simp add: column_format_def first_non_null_def null_text_examples two_formats_def
        iso_date_examples)
  have cell: "read_cell two_formats (Some ''%Y-%m-%d'') ''2024-03-15''
      = Some \<lparr>year = 2024, month = 3, day = 15\<rparr>"
    by (simp add: read_cell_def null_text_examples two_formats_def iso_date_examples)
  have df: "format_data two_formats (Some [[
      \<lparr>item_name = ''ad'', column_values =
         [\<lparr>cv_id = ''date_mkv81p3z'', cv_text = Some ''2024-03-15''\<rparr>,
          \<lparr>cv_id = ''numeric_mkv863mb'', cv_text = Some ''40''\<rparr>]\<rparr>]])
     = Inr \<lparr>columns = [''Item'', ''Attribution Date'', ''Google Adspend'', ''Month Year''],
        rows = [\<lparr>row_Item = ''ad'', row_Attribution_Date = Some \<lparr>year = 2024, month = 3, day = 15\<rparr>,
                 row_Google_Adspend = Some 40, row_Month_Year = Some ''March 2024'',
                 row_Year = None\<rparr>]\<rparr>"
    by (simp add: format_data_def extract_ad_record_example to_datetime_column_def fmt cell
        strftime_raises_def format_record_def sort_values_date_def
        strftime_B_Y_examples to_numeric_examples)
  show ?thesis
    unfolding main_def df
    by (simp add: main_export_def frame_empty_def dropna_date_def dropna_date_adspend_def
        add_year_def select_columns_def to_csv_def cells_def cell_of_def)
qed

text \<open>
  C7, as the specification has it: the exported file has the columns of the table on the
  screen, in the same order. For a board with one item the table has the four columns
  Item, Attribution Date, Year, Google Adspend, and the file has five: Item, Attribution
  Date, Google Adspend, Month Year, Year.
\<close>

theorem csv_columns_differ_from_table:
  "map_sum id (map_option (\<lambda>e. columns (displayed e))) (main two_formats (Some [[
      \<lparr>item_name = ''ad'', column_values =
         [\<lparr>cv_id = ''date_mkv81p3z'', cv_text = Some ''2024-03-15''\<rparr>,
          \<lparr>cv_id = ''numeric_mkv863mb'', cv_text = Some ''40''\<rparr>]\<rparr>]]) None)
     = Inr (Some [''Item'', ''Attribution Date'', ''Year'', ''Google Adspend''])
   \<and> map_sum id (map_option (\<lambda>e. csv_header (csv e))) (main two_formats (Some [[
      \<lparr>item_name = ''ad'', column_values =
         [\<lparr>cv_id = ''date_mkv81p3z'', cv_text = Some ''2024-03-15''\<rparr>,
          \<lparr>cv_id = ''numeric_mkv863mb'', cv_text = Some ''40''\<rparr>]\<rparr>]]) None)
     = Inr (Some [''Item'', ''Attribution Date'', ''Google Adspend'', ''Month Year'', ''Year''])
   \<and> map_sum id (map_option (\<lambda>e. csv_header (csv e))) (main two_formats (Some [[
      \<lparr>item_name = ''ad'', column_values =
         [\<lparr>cv_id = ''date_mkv81p3z'', cv_text = Some ''2024-03-15''\<rparr>,
          \<lparr>cv_id = ''numeric_mkv863mb'', cv_text = Some ''40''\<rparr>]\<rparr>]]) None)
     \<noteq> map_sum id (map_option (\<lambda>e. columns (displayed e))) (main two_formats (Some [[
      \<lparr>item_name = ''ad'', column_values =
         [\<lparr>cv_id = ''date_mkv81p3z'', cv_text = Some ''2024-03-15''\<rparr>,
          \<lparr>cv_id = ''numeric_mkv863mb'', cv_text = Some ''40''\<rparr>]\<rparr>]]) None)"
  by (simp add: main_example)

text \<open>
  C7, amended. Whenever \<^verbatim>\<open>main\<close> shows the data table, the exported file has
  the columns Item, Attribution Date, Google Adspend, Month Year, Year, in that order,
  and the table has the columns Item, Attribution Date, Year, Google Adspend. The file
  has one line for each row of the table, in the same order, and the cells of the table
  row are the first, second, fifth and third cell of that line.
\<close>

theorem csv_export_rows_and_columns:
  assumes "main lib data selected_year = Inr (Some e)"
  shows "csv_header (csv e) = [''Item'', ''Attribution Date'', ''Google Adspend'', ''Month Year'', ''Year'']
       \<and> columns (displayed e) = [''Item'', ''Attribution Date'', ''Year'', ''Google Adspend'']
       \<and> length (csv_rows (csv e)) = length (rows (displayed e))
       \<and> cells (displayed e) = map (\<lambda>line. [line ! 0, line ! 1, line ! 4, line ! 2]) (csv_rows (csv e))"
proof -
  from assms obtain df where df: "format_data lib data = Inr df"
    and ex: "main_export df selected_year = Some e"
    by (rule main_Some)
  have "df \<noteq> empty_frame"
    using ex by (auto simp: main_export_def empty_frame_def frame_empty_def)
  then have c: "columns df = [''Item'', ''Attribution Date'', ''Google Adspend'', ''Month Year'']"
    using columns_format_data [OF df] by simp
  then have "''Year'' \<notin> set (columns df)"
    by simp
  with ex obtain df_chart where
    e: "e = \<lparr>displayed = select_columns [''Item'', ''Attribution Date'', ''Year'', ''Google Adspend''] df_chart,
          csv = to_csv df_chart\<rparr>" and
    cols: "columns df_chart = columns df @ [''Year'']"
    using main_export_Some [of df selected_year e] by blast
  show ?thesis
    unfolding e using cols c
    by (simp add: to_csv_def select_columns_def cells_def)
qed

theorem csv_export_rows_and_columns_witness:
  "main two_formats (Some [[
      \<lparr>item_name = ''ad'', column_values =
         [\<lparr>cv_id = ''date_mkv81p3z'', cv_text = Some ''2024-03-15''\<rparr>,
          \<lparr>cv_id = ''numeric_mkv863mb'', cv_text = Some ''40''\<rparr>]\<rparr>]]) None
   = Inr (Some \<lparr>displayed =
       \<lparr>columns = [''Item'', ''Attribution Date'', ''Year'', ''Google Adspend''],
        rows = [\<lparr>row_Item = ''ad'', row_Attribution_Date = Some \<lparr>year = 2024, month = 3, day = 15\<rparr>,
                 row_Google_Adspend = Some 40, row_Month_Year = Some ''March 2024'',
                 row_Year = Some 2024\<rparr>]\<rparr>,
      csv =
       \<lparr>csv_header = [''Item'', ''Attribution Date'', ''Google Adspend'', ''Month Year'', ''Year''],
        csv_rows = [[Text ''ad'', Timestamp \<lparr>year = 2024, month = 3, day = 15\<rparr>,
                     Number 40, Text ''March 2024'', Integer 2024]]\<rparr>\<rparr>)
   \<and> cells \<lparr>columns = [''Item'', ''Attribution Date'', ''Year'', ''Google Adspend''],
        rows = [\<lparr>row_Item = ''ad'', row_Attribution_Date = Some \<lparr>year = 2024, month = 3, day = 15\<rparr>,
                 row_Google_Adspend = Some 40, row_Month_Year = Some ''March 2024'',
                 row_Year = Some 2024\<rparr>]\<rparr>
     = [[Text ''ad'', Timestamp \<lparr>year = 2024, month = 3, day = 15\<rparr>, Integer 2024, Number 40]]"
  using csv_export_rows_and_columns [OF main_example] main_example
  by simp


end
